theory Spec2Isabelle
  imports Complex_Main "HOL-Library.AList"
begin

section \<open>Python values, exceptions and dictionaries\<close>

text \<open>
  The values that flow through the pipeline are those of JSON documents: a paper is a
  \<open>Dict[str, Any]\<close>, the model's answer is parsed by \<open>json.loads\<close>, the checkpoint is
  written by \<open>json.dump\<close>. A dictionary is an association list with distinct keys in
  insertion order. A float is a rational here; the non-finite floats are not represented
  (they are truthy, like every float other than zero).
\<close>

datatype pyval =
    PNone
  | PBool bool
  | PInt int
  | PFloat rat
  | PStr string
  | PList "pyval list"
  | PDict "(string \<times> pyval) list"

type_synonym dict = "(string \<times> pyval) list"

text \<open>An exception is its class name and \<open>str(e)\<close>. Every exception of the model derives
  from \<open>Exception\<close>; interrupts (\<open>KeyboardInterrupt\<close>, \<open>SystemExit\<close>) are not modelled.\<close>

datatype exn = Exn (exn_class: string) (exn_str: string)

definition bind_err :: "exn + 'a \<Rightarrow> ('a \<Rightarrow> exn + 'b) \<Rightarrow> exn + 'b" where
  \<comment> \<open>sequencing of two computations that may raise\<close>
  "bind_err m f = (case m of Inl e \<Rightarrow> Inl e | Inr a \<Rightarrow> f a)"

definition dict_get :: "dict \<Rightarrow> string \<Rightarrow> pyval \<Rightarrow> pyval" where
  \<comment> \<open>\<open>d.get(k, default)\<close>\<close>
  "dict_get d k dflt = (case map_of d k of None \<Rightarrow> dflt | Some v \<Rightarrow> v)"

definition dict_set :: "dict \<Rightarrow> string \<Rightarrow> pyval \<Rightarrow> dict" where
  \<comment> \<open>\<open>d[k] = v\<close>: an existing key keeps its place, a new key goes last\<close>
  "dict_set d k v = AList.update k v d"

definition subscript :: "dict \<Rightarrow> string \<Rightarrow> exn + pyval" where
  \<comment> \<open>\<open>d[k]\<close>; \<open>str(KeyError(k))\<close> is the key in quotes\<close>
  "subscript d k =
     (case map_of d k of
        None \<Rightarrow> Inl (Exn ''KeyError'' ([CHR 39] @ k @ [CHR 39]))
      | Some v \<Rightarrow> Inr v)"

fun truthy :: "pyval \<Rightarrow> bool" where
  "truthy PNone = False"
| "truthy (PBool b) = b"
| "truthy (PInt i) = (i \<noteq> 0)"
| "truthy (PFloat x) = (x \<noteq> 0)"
| "truthy (PStr s) = (s \<noteq> [])"
| "truthy (PList xs) = (xs \<noteq> [])"
| "truthy (PDict d) = (d \<noteq> [])"

section \<open>Python strings\<close>

text \<open>
  A Python \<open>str\<close> is modelled as a HOL \<open>string\<close>; a character stands for the code point
  of the same number, so the model covers the code points below 256.
\<close>

definition isalnum :: "char \<Rightarrow> bool" where
  \<comment> \<open>\<open>str.isalnum\<close> on one character, for the code points below 256.\<close>
  "isalnum c =
     (let n = (of_char c :: nat) in
        (48 \<le> n \<and> n \<le> 57) \<or> (65 \<le> n \<and> n \<le> 90) \<or> (97 \<le> n \<and> n \<le> 122) \<or>
        n = 170 \<or> n = 178 \<or> n = 179 \<or> n = 181 \<or> n = 185 \<or> n = 186 \<or>
        n = 188 \<or> n = 189 \<or> n = 190 \<or>
        (192 \<le> n \<and> n \<le> 214) \<or> (216 \<le> n \<and> n \<le> 246) \<or> (248 \<le> n \<and> n \<le> 255))"

definition strip_chars :: "string \<Rightarrow> string \<Rightarrow> string" where
  \<comment> \<open>\<open>s.strip(chars)\<close>: drops the characters of \<open>chars\<close> from both ends.\<close>
  "strip_chars chars s =
     rev (dropWhile (\<lambda>c. c \<in> set chars) (rev (dropWhile (\<lambda>c. c \<in> set chars) s)))"

definition replace_char :: "char \<Rightarrow> string \<Rightarrow> string \<Rightarrow> string" where
  \<comment> \<open>\<open>s.replace(old, new)\<close> for a pattern \<open>old\<close> of one character.\<close>
  "replace_char old new s = concat (map (\<lambda>c. if c = old then new else [c]) s)"

section \<open>Paths\<close>

text \<open>
  A path is the list of its components, as \<open>PurePosixPath.parts\<close> gives them; the root
  is the component \<open>/\<close>.
\<close>

type_synonym path = "string list"

fun split_on :: "char \<Rightarrow> string \<Rightarrow> string list" where
  "split_on d [] = [[]]"
| "split_on d (c # cs) =
     (if c = d then [] # split_on d cs
      else (case split_on d cs of [] \<Rightarrow> [[c]] | w # ws \<Rightarrow> (c # w) # ws))"

definition joinpath :: "path \<Rightarrow> string \<Rightarrow> path" where
  \<comment> \<open>\<open>base / s\<close> of pathlib on POSIX: \<open>s\<close> is cut at the separators, empty and \<open>.\<close>
      components are dropped, \<open>..\<close> is kept, and an absolute \<open>s\<close> replaces \<open>base\<close>.\<close>
  "joinpath base s =
     (let parts = filter (\<lambda>c. c \<noteq> [] \<and> c \<noteq> ''.'') (split_on CHR ''/'' s)
      in if s \<noteq> [] \<and> hd s = CHR ''/'' then ''/'' # parts else base @ parts)"

section \<open>The workspace of a run\<close>

definition sanitize :: "string \<Rightarrow> string" where
  \<comment> \<open>\<open>AthenaRunner._sanitize\<close>\<close>
  "sanitize text =
     replace_char CHR '' '' ''_''
       (strip_chars ''_''
          (map (\<lambda>c. if isalnum c \<or> c \<in> {CHR ''-'', CHR ''_''} then c else CHR ''_'') text))"

definition workspace_of :: "path \<Rightarrow> string \<Rightarrow> path" where
  \<comment> \<open>\<open>workspace = DATA_DIR / self._sanitize(query)\<close>\<close>
  "workspace_of data_dir query = joinpath data_dir (sanitize query)"

definition state_file_of :: "path \<Rightarrow> string \<Rightarrow> path" where
  \<comment> \<open>\<open>workspace / ".cache" / f"pipeline_state_{stamp}.json"\<close>, \<open>stamp\<close> the formatted time\<close>
  "state_file_of workspace stamp =
     joinpath (joinpath workspace ''.cache'') (''pipeline_state_'' @ stamp @ ''.json'')"

section \<open>Integers and timestamps as text\<close>

definition digit_char :: "nat \<Rightarrow> char" where
  \<comment> \<open>the decimal digit \<open>d\<close>, for \<open>d < 10\<close>\<close>
  "digit_char d = ''0123456789'' ! d"

fun str_nat :: "nat \<Rightarrow> string" where
  "str_nat n = (if n < 10 then [digit_char n] else str_nat (n div 10) @ [digit_char (n mod 10)])"

declare str_nat.simps [simp del]

definition str_int :: "int \<Rightarrow> string" where
  \<comment> \<open>\<open>str(i)\<close> of an integer\<close>
  "str_int i = (if i < 0 then CHR ''-'' # str_nat (nat (- i)) else str_nat (nat i))"

definition zfill :: "nat \<Rightarrow> nat \<Rightarrow> string" where
  \<comment> \<open>the format \<open>%0wd\<close>\<close>
  "zfill w n = replicate (w - length (str_nat n)) CHR ''0'' @ str_nat n"

record datetime =
  year :: nat
  month :: nat
  day :: nat
  hour :: nat
  minute :: nat
  second :: nat
  microsecond :: nat

definition strftime_stamp :: "datetime \<Rightarrow> string" where
  \<comment> \<open>\<open>t.strftime('%Y%m%d_%H%M%S')\<close>\<close>
  "strftime_stamp t =
     zfill 4 (year t) @ zfill 2 (month t) @ zfill 2 (day t) @ ''_'' @
     zfill 2 (hour t) @ zfill 2 (minute t) @ zfill 2 (second t)"

definition isoformat :: "datetime \<Rightarrow> string" where
  \<comment> \<open>\<open>t.isoformat()\<close> of a naive datetime: the microseconds are printed when not zero\<close>
  "isoformat t =
     zfill 4 (year t) @ ''-'' @ zfill 2 (month t) @ ''-'' @ zfill 2 (day t) @ ''T'' @
     zfill 2 (hour t) @ '':'' @ zfill 2 (minute t) @ '':'' @ zfill 2 (second t) @
     (if microsecond t = 0 then [] else ''.'' @ zfill 6 (microsecond t))"

definition digit_val :: "char \<Rightarrow> nat option" where
  "digit_val c = (let n = (of_char c :: nat) in if 48 \<le> n \<and> n \<le> 57 then Some (n - 48) else None)"

fun read_nat :: "nat \<Rightarrow> string \<Rightarrow> nat option" where
  \<comment> \<open>the number a string of decimal digits writes, after the digits \<open>acc\<close> already read\<close>
  "read_nat acc [] = Some acc"
| "read_nat acc (c # cs) =
     (case digit_val c of None \<Rightarrow> None | Some d \<Rightarrow> read_nat (10 * acc + d) cs)"

definition fromisoformat :: "string \<Rightarrow> exn + datetime" where
  \<comment> \<open>\<open>datetime.fromisoformat\<close> on the two layouts that \<open>isoformat\<close> writes for a naive
      datetime, \<open>YYYY-MM-DDTHH:MM:SS\<close> and \<open>YYYY-MM-DDTHH:MM:SS.ffffff\<close>; the library reads
      further layouts, which this model rejects\<close>
  "fromisoformat s =
     (let bad = Inl (Exn ''ValueError'' (''Invalid isoformat string: '' @ s));
          field = (\<lambda>i n. read_nat 0 (take n (drop i s)))
      in if (length s = 19 \<or> length s = 26 \<and> s ! 19 = CHR ''.'') \<and>
            s ! 4 = CHR ''-'' \<and> s ! 7 = CHR ''-'' \<and> s ! 10 = CHR ''T'' \<and>
            s ! 13 = CHR '':'' \<and> s ! 16 = CHR '':''
         then (case (field 0 4, field 5 2, field 8 2, field 11 2, field 14 2, field 17 2,
                     field 20 6) of
                 (Some y, Some mo, Some d, Some h, Some mi, Some se, Some us) \<Rightarrow>
                   if 1 \<le> y \<and> 1 \<le> mo \<and> mo \<le> 12 \<and> 1 \<le> d \<and> d \<le> 31 \<and> h < 24 \<and> mi < 60 \<and> se < 60
                   then Inr \<lparr>year = y, month = mo, day = d, hour = h, minute = mi,
                             second = se, microsecond = us\<rparr>
                   else bad
               | _ \<Rightarrow> bad)
         else bad)"

section \<open>The progress record and its checkpoint document\<close>

type_synonym paper = dict

record pipeline_state =
  query :: string
  total_papers :: int
  processed :: "paper list"
  failed :: "(paper \<times> string) list"
  start_time :: datetime
  last_save :: datetime

definition to_json :: "(datetime \<Rightarrow> string) \<Rightarrow> pipeline_state \<Rightarrow> dict" where
  \<comment> \<open>\<open>PipelineState.to_json\<close>; \<open>isofmt\<close> is \<open>datetime.isoformat\<close>\<close>
  "to_json isofmt s =
     [(''query'', PStr (query s)),
      (''total_papers'', PInt (total_papers s)),
      (''processed'', PList (map PDict (processed s))),
      (''failed'', PList (map (\<lambda>(p, e). PDict [(''paper'', PDict p), (''error'', PStr e)]) (failed s))),
      (''start_time'', PStr (isofmt (start_time s))),
      (''last_save'', PStr (isofmt (last_save s)))]"

definition iterate :: "pyval \<Rightarrow> exn + pyval list" where
  \<comment> \<open>the items a \<open>for\<close> loop sees: the elements of a list, the characters of a string,
      the keys of a dictionary; other values are not iterable\<close>
  "iterate v =
     (case v of
        PList xs \<Rightarrow> Inr xs
      | PStr s \<Rightarrow> Inr (map (\<lambda>c. PStr [c]) s)
      | PDict d \<Rightarrow> Inr (map (\<lambda>kv. PStr (fst kv)) d)
      | _ \<Rightarrow> Inl (Exn ''TypeError'' ''object is not iterable''))"

definition item_subscript :: "pyval \<Rightarrow> string \<Rightarrow> exn + pyval" where
  \<comment> \<open>\<open>item[k]\<close> with a string key: only a dictionary can answer\<close>
  "item_subscript v k =
     (case v of
        PDict d \<Rightarrow> subscript d k
      | _ \<Rightarrow> Inl (Exn ''TypeError'' ''no subscript with a string key''))"

fun failed_pairs :: "pyval list \<Rightarrow> exn + (pyval \<times> pyval) list" where
  \<comment> \<open>\<open>[(item["paper"], item["error"]) for item in ...]\<close>\<close>
  "failed_pairs [] = Inr []"
| "failed_pairs (item # items) =
     bind_err (item_subscript item ''paper'') (\<lambda>p.
     bind_err (item_subscript item ''error'') (\<lambda>e.
     bind_err (failed_pairs items) (\<lambda>rest. Inr ((p, e) # rest))))"

definition parse_time :: "(string \<Rightarrow> exn + datetime) \<Rightarrow> pyval \<Rightarrow> exn + datetime" where
  \<comment> \<open>\<open>datetime.fromisoformat(v)\<close>: the argument must be a \<open>str\<close>\<close>
  "parse_time fromiso v =
     (case v of
        PStr s \<Rightarrow> fromiso s
      | _ \<Rightarrow> Inl (Exn ''TypeError'' ''fromisoformat: argument must be str''))"

text \<open>
  \<open>from_json\<close> stores the values it looks up without checking them. The record of the model
  has the types the dataclass annotates, so the last step, \<open>annotated\<close>, reads the values at
  these types; a document whose values have other types gives the outcome \<open>IllTyped\<close>, where
  Python builds an object that breaks its annotations.
\<close>

fun as_papers :: "pyval list \<Rightarrow> paper list option" where
  "as_papers [] = Some []"
| "as_papers (v # vs) =
     (case (v, as_papers vs) of (PDict p, Some ps) \<Rightarrow> Some (p # ps) | _ \<Rightarrow> None)"

fun as_failures :: "(pyval \<times> pyval) list \<Rightarrow> (paper \<times> string) list option" where
  "as_failures [] = Some []"
| "as_failures ((p, e) # rest) =
     (case (p, e, as_failures rest) of
        (PDict d, PStr m, Some fs) \<Rightarrow> Some ((d, m) # fs)
      | _ \<Rightarrow> None)"

definition annotated ::
  "pyval \<Rightarrow> pyval \<Rightarrow> pyval \<Rightarrow> (pyval \<times> pyval) list \<Rightarrow> datetime \<Rightarrow> datetime \<Rightarrow> exn + pipeline_state"
where
  "annotated q n ps fs t0 t1 =
     (case (q, n, ps) of
        (PStr q', PInt n', PList ps') \<Rightarrow>
          (case (as_papers ps', as_failures fs) of
             (Some ps'', Some fs') \<Rightarrow>
               Inr \<lparr>query = q', total_papers = n', processed = ps'', failed = fs',
                    start_time = t0, last_save = t1\<rparr>
           | _ \<Rightarrow> Inl (Exn ''IllTyped'' []))
      | _ \<Rightarrow> Inl (Exn ''IllTyped'' []))"

definition from_json :: "(string \<Rightarrow> exn + datetime) \<Rightarrow> dict \<Rightarrow> exn + pipeline_state" where
  \<comment> \<open>\<open>PipelineState.from_json\<close>; \<open>fromiso\<close> is \<open>datetime.fromisoformat\<close>\<close>
  "from_json fromiso data =
     bind_err (subscript data ''query'') (\<lambda>q.
     bind_err (subscript data ''total_papers'') (\<lambda>n.
     bind_err (subscript data ''processed'') (\<lambda>ps.
     bind_err (bind_err (bind_err (subscript data ''failed'') iterate) failed_pairs) (\<lambda>fs.
     bind_err (bind_err (subscript data ''start_time'') (parse_time fromiso)) (\<lambda>t0.
     bind_err (bind_err (subscript data ''last_save'') (parse_time fromiso)) (\<lambda>t1.
     annotated q n ps fs t0 t1))))))"

section \<open>The orchestrator\<close>

text \<open>
  The collaborators (retriever, extractor, summarizer, indexer, publisher), the clock, the
  directory calls and the opening and writing of the checkpoint file are outside the
  orchestrator. Each is a field of the environment: a function of its arguments and of the
  state \<open>'w\<close> of the outside world, returning its result, or the exception it raises, and
  the world it leaves. \<open>py_hash\<close> is the built-in \<open>hash\<close> of the running process and
  \<open>json_dumps\<close> the text that \<open>json.dump(..., indent=2)\<close> writes.
\<close>

record 'w env =
  data_dir :: path
  now :: "'w \<Rightarrow> datetime \<times> 'w"
  mkdir :: "path \<Rightarrow> 'w \<Rightarrow> (exn + unit) \<times> 'w"
  construct :: "string \<Rightarrow> 'w \<Rightarrow> (exn + unit) \<times> 'w"
  search :: "string \<Rightarrow> int \<Rightarrow> path \<Rightarrow> 'w \<Rightarrow> (exn + paper list) \<times> 'w"
  extract_from_url :: "pyval \<Rightarrow> path \<Rightarrow> 'w \<Rightarrow> (exn + dict) \<times> 'w"
  summarize :: "pyval \<Rightarrow> 'w \<Rightarrow> (exn + dict) \<times> 'w"
  get_embedding :: "pyval \<Rightarrow> 'w \<Rightarrow> (exn + pyval) \<times> 'w"
  add_paper :: "dict \<Rightarrow> 'w \<Rightarrow> (exn + unit) \<times> 'w"
  push_single_paper :: "paper \<Rightarrow> string \<Rightarrow> 'w \<Rightarrow> (exn + unit) \<times> paper \<times> 'w"
  py_hash :: "pyval \<Rightarrow> exn + int"
  json_dumps :: "dict \<Rightarrow> string"
  open_w :: "path \<Rightarrow> 'w \<Rightarrow> (exn + unit) \<times> 'w"
  write_fails :: "path \<Rightarrow> string \<Rightarrow> 'w \<Rightarrow> (nat \<times> exn) option \<times> 'w"

text \<open>
  \<open>open_w\<close> tells whether \<open>open(path, "w")\<close> raises; \<open>write_fails\<close> tells whether writing
  the text raises, and then after how many characters.
\<close>

datatype call = Construct string | Search | Fetch | Summarize | Embed | Index | Publish

datatype level = INFO | WARNING | ERROR

datatype log_entry =
    LogProcessing nat nat pyval
  | LogFailed string
  | LogAutoSaved path
  | LogNoPapers
  | LogFinished nat nat

fun level_of :: "log_entry \<Rightarrow> level" where
  "level_of (LogProcessing i n title) = INFO"
| "level_of (LogFailed msg) = ERROR"
| "level_of (LogAutoSaved f) = INFO"
| "level_of LogNoPapers = ERROR"
| "level_of (LogFinished k n) = INFO"

text \<open>
  The runner: the names of the collaborators already constructed (\<open>self._modules\<close>), the
  progress record and the checkpoint path (both \<open>None\<close> until a run starts), the outside
  world, the content of the files, and the lines logged. \<open>calls\<close> is a history that the
  code does not read: every call of a collaborator (its constructor or one of its stage
  methods), in order, with the exception it raised, if any.
\<close>

record 'w runner =
  modules :: "string list"
  state :: "pipeline_state option"
  state_file :: "path option"
  world :: 'w
  files :: "(path \<times> string) list"
  logged :: "log_entry list"
  calls :: "(call \<times> exn option) list"

definition init_runner :: "'w \<Rightarrow> (path \<times> string) list \<Rightarrow> 'w runner" where
  \<comment> \<open>\<open>AthenaRunner.__init__\<close>, in a world \<open>w\<close> with the files \<open>fs\<close>\<close>
  "init_runner w fs =
     \<lparr>modules = [], state = None, state_file = None, world = w, files = fs, logged = [],
      calls = []\<rparr>"

definition bind_st ::
  "('s \<Rightarrow> (exn + 'a) \<times> 's) \<Rightarrow> ('a \<Rightarrow> 's \<Rightarrow> (exn + 'b) \<times> 's) \<Rightarrow> 's \<Rightarrow> (exn + 'b) \<times> 's"
where
  \<comment> \<open>one statement after another: an exception of the first skips the second\<close>
  "bind_st m f s = (case m s of (Inl e, s') \<Rightarrow> (Inl e, s') | (Inr a, s') \<Rightarrow> f a s')"

definition outside :: "('w \<Rightarrow> (exn + 'a) \<times> 'w) \<Rightarrow> 'w runner \<Rightarrow> (exn + 'a) \<times> 'w runner" where
  \<comment> \<open>a call of the operating system (a directory, the checkpoint file)\<close>
  "outside f r = (case f (world r) of (res, w') \<Rightarrow> (res, r\<lparr>world := w'\<rparr>))"

definition raised :: "exn + 'a \<Rightarrow> exn option" where
  "raised res = (case res of Inl e \<Rightarrow> Some e | Inr a \<Rightarrow> None)"

definition collab ::
  "call \<Rightarrow> ('w \<Rightarrow> (exn + 'a) \<times> 'w) \<Rightarrow> 'w runner \<Rightarrow> (exn + 'a) \<times> 'w runner"
where
  \<comment> \<open>a call of a collaborator, entered in the history\<close>
  "collab c f r =
     (case f (world r) of
        (res, w') \<Rightarrow> (res, r\<lparr>world := w', calls := calls r @ [(c, raised res)]\<rparr>))"

definition cls_map :: "(string \<times> string) list" where
  "cls_map =
     [(''exa_scraper'', ''ExaScraper''), (''pdf_extractor'', ''PDFExtractor''),
      (''gpt_summarizer'', ''GPTSummarizer''), (''vector_db'', ''VectorDB''),
      (''obsidian_injector'', ''ObsidianInjector'')]"

definition get_module :: "'w env \<Rightarrow> string \<Rightarrow> 'w runner \<Rightarrow> (exn + unit) \<times> 'w runner" where
  \<comment> \<open>\<open>AthenaRunner._get_module\<close>; the instance itself is opaque, the cache keeps its name\<close>
  "get_module env name r =
     (if name \<in> set (modules r) then (Inr (), r)
      else (case map_of cls_map name of
              None \<Rightarrow> (Inl (Exn ''KeyError'' ([CHR 39] @ name @ [CHR 39])), r)
            | Some cls \<Rightarrow>
                bind_st (collab (Construct name) (construct env name))
                  (\<lambda>_ r'. (Inr (), r'\<lparr>modules := modules r' @ [name]\<rparr>)) r))"

definition py_len :: "pyval \<Rightarrow> exn + nat" where
  \<comment> \<open>\<open>len(v)\<close>\<close>
  "py_len v =
     (case v of
        PStr s \<Rightarrow> Inr (length s)
      | PList xs \<Rightarrow> Inr (length xs)
      | PDict d \<Rightarrow> Inr (length d)
      | _ \<Rightarrow> Inl (Exn ''TypeError'' ''object has no len()''))"

definition check_content :: "pyval \<Rightarrow> exn + unit" where
  \<comment> \<open>\<open>if not raw_text or len(raw_text) < 300: raise ValueError(...)\<close>\<close>
  "check_content raw_text =
     (if \<not> truthy raw_text then Inl (Exn ''ValueError'' ''Extracted content too short.'')
      else bind_err (py_len raw_text) (\<lambda>n.
             if n < 300 then Inl (Exn ''ValueError'' ''Extracted content too short.'')
             else Inr ()))"

definition fallback_id :: "'w env \<Rightarrow> paper \<Rightarrow> exn + paper" where
  \<comment> \<open>\<open>if not paper.get("id"): paper["id"] = str(hash(paper.get("title", "")))\<close>\<close>
  "fallback_id env paper =
     (if \<not> truthy (dict_get paper ''id'' PNone)
      then bind_err (py_hash env (dict_get paper ''title'' (PStr [])))
             (\<lambda>h. Inr (dict_set paper ''id'' (PStr (str_int h))))
      else Inr paper)"

definition index_record :: "paper \<Rightarrow> dict" where
  \<comment> \<open>the dictionary handed to \<open>vector_db.add_paper\<close>\<close>
  "index_record paper =
     [(''paper_id'', dict_get paper ''id'' (PStr [])),
      (''title'', dict_get paper ''title'' (PStr [])),
      (''authors'', dict_get paper ''authors'' (PList [])),
      (''paper_url'', dict_get paper ''url'' (PStr [])),
      (''pdf_path'', dict_get paper ''pdf_path'' (PStr [])),
      (''gpt_summary'', dict_get paper ''gpt_summary'' (PStr [])),
      (''tags'', dict_get paper ''semantic_tags'' (PList [])),
      (''embedding'', dict_get paper ''embedding'' (PList []))]"

text \<open>
  \<open>_process_paper\<close> changes the paper in place, so the paper is part of the state the
  statements act on: an exception leaves the paper as changed so far.
\<close>

definition on_runner ::
  "('w runner \<Rightarrow> (exn + 'a) \<times> 'w runner) \<Rightarrow> paper \<times> 'w runner \<Rightarrow> (exn + 'a) \<times> paper \<times> 'w runner"
where
  "on_runner m s = (case m (snd s) of (res, r') \<Rightarrow> (res, fst s, r'))"

definition on_paper ::
  "(paper \<Rightarrow> exn + paper) \<Rightarrow> paper \<times> 'w runner \<Rightarrow> (exn + unit) \<times> paper \<times> 'w runner"
where
  "on_paper f s = (case f (fst s) of Inl e \<Rightarrow> (Inl e, s) | Inr p' \<Rightarrow> (Inr (), p', snd s))"

definition raise_if :: "exn + unit \<Rightarrow> 's \<Rightarrow> (exn + unit) \<times> 's" where
  "raise_if c s = (c, s)"

definition publish :: "'w env \<Rightarrow> paper \<times> 'w runner \<Rightarrow> (exn + unit) \<times> paper \<times> 'w runner" where
  \<comment> \<open>\<open>obsidian_injector.push_single_paper(paper, query_name=self.state.query)\<close>; the
      publisher changes the paper it is given\<close>
  "publish env s =
     (case state (snd s) of
        None \<Rightarrow> (Inl (Exn ''AttributeError'' ''NoneType object has no attribute query''), s)
      | Some st \<Rightarrow>
          (case push_single_paper env (fst s) (query st) (world (snd s)) of
             (res, p', w') \<Rightarrow>
               (res, p', (snd s)\<lparr>world := w',
                                   calls := calls (snd s) @ [(Publish, raised res)]\<rparr>)))"

definition mark_processed :: "paper \<times> 'w runner \<Rightarrow> (exn + unit) \<times> paper \<times> 'w runner" where
  \<comment> \<open>\<open>self.state.processed.append(paper)\<close>\<close>
  "mark_processed s =
     (case state (snd s) of
        None \<Rightarrow> (Inl (Exn ''AttributeError'' ''NoneType object has no attribute processed''), s)
      | Some st \<Rightarrow>
          (Inr (), fst s, (snd s)\<lparr>state := Some (st\<lparr>processed := processed st @ [fst s]\<rparr>)\<rparr>))"

definition process_paper ::
  "'w env \<Rightarrow> path \<Rightarrow> paper \<times> 'w runner \<Rightarrow> (exn + unit) \<times> paper \<times> 'w runner"
where
  \<comment> \<open>\<open>AthenaRunner._process_paper\<close>\<close>
  "process_paper env workspace =
     bind_st (on_runner (get_module env ''pdf_extractor'')) (\<lambda>_.
     bind_st (on_runner (get_module env ''gpt_summarizer'')) (\<lambda>_.
     bind_st (on_runner (get_module env ''vector_db'')) (\<lambda>_.
     bind_st (on_runner (get_module env ''obsidian_injector'')) (\<lambda>_.
     bind_st (\<lambda>s. on_runner (collab Fetch (extract_from_url env (dict_get (fst s) ''pdf_url'' PNone)
                                 (joinpath workspace ''raw_texts''))) s) (\<lambda>text_data.
     bind_st (raise_if (check_content (dict_get text_data ''raw_text'' (PStr [])))) (\<lambda>_.
     bind_st (on_paper (\<lambda>p. Inr (dict_set p ''pdf_path'' (dict_get text_data ''pdf_path'' (PStr []))))) (\<lambda>_.
     bind_st (on_paper (fallback_id env)) (\<lambda>_.
     bind_st (on_runner (collab Summarize (summarize env (dict_get text_data ''raw_text'' (PStr []))))) (\<lambda>summary_data.
     bind_st (on_paper (\<lambda>p. Inr (dict_set p ''gpt_summary'' (dict_get summary_data ''gpt_summary'' (PStr []))))) (\<lambda>_.
     bind_st (on_paper (\<lambda>p. Inr (dict_set p ''semantic_tags'' (dict_get summary_data ''tags'' (PList []))))) (\<lambda>_.
     bind_st (on_paper (\<lambda>p. bind_err (subscript p ''gpt_summary'') (\<lambda>v. Inr (dict_set p ''summary'' v)))) (\<lambda>_.
     bind_st (on_runner (collab Embed (get_embedding env (dict_get text_data ''raw_text'' (PStr []))))) (\<lambda>embedding.
     bind_st (on_paper (\<lambda>p. Inr (dict_set p ''embedding'' embedding))) (\<lambda>_.
     bind_st (\<lambda>s. on_runner (collab Index (add_paper env (index_record (fst s)))) s) (\<lambda>_.
     bind_st (publish env) (\<lambda>_.
     mark_processed))))))))))))))))"

text \<open>
  The checkpoint file is written in place: \<open>open(path, "w")\<close> empties the file, then
  \<open>json.dump\<close> appends the text piece by piece. The pieces are taken to be single
  characters, the finest cut; a run of the first \<open>j\<close> operations is what the file system
  has seen when the process stops there.
\<close>

datatype file_op = Truncate path | Append path string

definition file_content :: "(path \<times> string) list \<Rightarrow> path \<Rightarrow> string" where
  "file_content fs f = (case map_of fs f of None \<Rightarrow> [] | Some c \<Rightarrow> c)"

fun apply_op :: "file_op \<Rightarrow> (path \<times> string) list \<Rightarrow> (path \<times> string) list" where
  "apply_op (Truncate f) fs = AList.update f [] fs"
| "apply_op (Append f s) fs = AList.update f (file_content fs f @ s) fs"

definition save_ops :: "path \<Rightarrow> string \<Rightarrow> file_op list" where
  \<comment> \<open>the file operations of one \<open>_auto_save\<close>\<close>
  "save_ops f text = Truncate f # map (\<lambda>c. Append f [c]) text"

definition auto_save :: "'w env \<Rightarrow> 'w runner \<Rightarrow> (exn + unit) \<times> 'w runner" where
  \<comment> \<open>\<open>AthenaRunner._auto_save\<close>; when the writing raises after \<open>k\<close> characters, the
      file keeps what was written\<close>
  "auto_save env r =
     (case (state r, state_file r) of
        (Some st, Some f) \<Rightarrow>
          (case now env (world r) of (t, w1) \<Rightarrow>
             let st' = st\<lparr>last_save := t\<rparr>;
                 r1 = r\<lparr>state := Some st', world := w1\<rparr>
             in bind_st (outside (open_w env f))
                  (\<lambda>_ r2.
                     let text = json_dumps env (to_json isoformat st')
                     in (case write_fails env f text (world r2) of
                           (Some (k, e), w3) \<Rightarrow>
                             (Inl e, r2\<lparr>world := w3,
                                       files := fold apply_op (take (Suc k) (save_ops f text))
                                                  (files r2)\<rparr>)
                         | (None, w3) \<Rightarrow>
                             (Inr (), r2\<lparr>world := w3,
                                        files := fold apply_op (save_ops f text) (files r2),
                                        logged := logged r2 @ [LogAutoSaved f]\<rparr>)))
                  r1)
      | _ \<Rightarrow> (Inr (), r))"

definition record_failure :: "paper \<Rightarrow> exn \<Rightarrow> 'w runner \<Rightarrow> (exn + unit) \<times> 'w runner" where
  \<comment> \<open>the handler \<open>except Exception as e\<close> of the loop\<close>
  "record_failure paper e r =
     (let r' = r\<lparr>logged := logged r @ [LogFailed (exn_str e)]\<rparr>
      in case state r' of
           None \<Rightarrow> (Inl (Exn ''AttributeError'' ''NoneType object has no attribute failed''), r')
         | Some st \<Rightarrow>
             (Inr (), r'\<lparr>state := Some (st\<lparr>failed := failed st @ [(paper, exn_str e)]\<rparr>)\<rparr>))"

definition announce :: "nat \<Rightarrow> nat \<Rightarrow> paper \<Rightarrow> 'w runner \<Rightarrow> 'w runner" where
  \<comment> \<open>\<open>logger.info(f"Processing paper {idx + 1}/{len(papers)}: {paper.get('title', 'Unknown')}")\<close>\<close>
  "announce n idx paper r =
     r\<lparr>logged := logged r @
           [LogProcessing (idx + 1) n (dict_get paper ''title'' (PStr ''Unknown''))]\<rparr>"

definition try_paper ::
  "'w env \<Rightarrow> path \<Rightarrow> nat \<Rightarrow> nat \<Rightarrow> paper \<Rightarrow> 'w runner \<Rightarrow> (exn + unit) \<times> 'w runner"
where
  \<comment> \<open>the \<open>try\<close> of the loop with its \<open>except Exception\<close>\<close>
  "try_paper env workspace n idx paper r =
     (case process_paper env workspace (paper, announce n idx paper r) of
        (Inr u, paper', r1) \<Rightarrow> (Inr (), r1)
      | (Inl e, paper', r1) \<Rightarrow> record_failure paper' e r1)"

definition run_item ::
  "'w env \<Rightarrow> path \<Rightarrow> nat \<Rightarrow> nat \<Rightarrow> paper \<Rightarrow> 'w runner \<Rightarrow> (exn + unit) \<times> 'w runner"
where
  \<comment> \<open>one round of the loop: \<open>try\<close> and \<open>except\<close>, then \<open>finally: self._auto_save(workspace)\<close>;
      an exception of \<open>finally\<close> replaces any other\<close>
  "run_item env workspace n idx paper r =
     (case try_paper env workspace n idx paper r of
        (handled, r2) \<Rightarrow>
          (case auto_save env r2 of
             (Inl e, r3) \<Rightarrow> (Inl e, r3)
           | (Inr u, r3) \<Rightarrow> (handled, r3)))"

fun run_loop ::
  "'w env \<Rightarrow> path \<Rightarrow> nat \<Rightarrow> nat \<Rightarrow> paper list \<Rightarrow> 'w runner \<Rightarrow> (exn + unit) \<times> 'w runner"
where
  \<comment> \<open>\<open>for idx, paper in enumerate(papers)\<close>, from the index \<open>idx\<close> on\<close>
  "run_loop env workspace n idx [] r = (Inr (), r)"
| "run_loop env workspace n idx (paper # rest) r =
     (case run_item env workspace n idx paper r of
        (Inl e, r') \<Rightarrow> (Inl e, r')
      | (Inr u, r') \<Rightarrow> run_loop env workspace n (idx + 1) rest r')"

text \<open>
  What the loop does with each paper it takes up, for the statements: the outcome of a
  paper is the paper as processed, or the paper as left by the failure with the reason.
\<close>

definition item_outcome ::
  "'w env \<Rightarrow> path \<Rightarrow> nat \<Rightarrow> nat \<Rightarrow> paper \<Rightarrow> 'w runner \<Rightarrow> (paper \<times> string) + paper"
where
  "item_outcome env workspace n idx paper r =
     (case process_paper env workspace (paper, announce n idx paper r) of
        (Inl e, paper', r1) \<Rightarrow> Inl (paper', exn_str e)
      | (Inr u, paper', r1) \<Rightarrow> Inr paper')"


fun successes :: "('a + 'b) list \<Rightarrow> 'b list" where
  "successes [] = []"
| "successes (Inl a # xs) = successes xs"
| "successes (Inr b # xs) = b # successes xs"

fun failures :: "('a + 'b) list \<Rightarrow> 'a list" where
  "failures [] = []"
| "failures (Inl a # xs) = a # failures xs"
| "failures (Inr b # xs) = failures xs"

fun mkdirs :: "'w env \<Rightarrow> path list \<Rightarrow> 'w runner \<Rightarrow> (exn + unit) \<times> 'w runner" where
  "mkdirs env [] r = (Inr (), r)"
| "mkdirs env (d # ds) r = bind_st (outside (mkdir env d)) (\<lambda>_. mkdirs env ds) r"

definition start_run ::
  "'w env \<Rightarrow> string \<Rightarrow> int \<Rightarrow> 'w runner \<Rightarrow> (exn + path \<times> paper list) \<times> 'w runner"
where
  \<comment> \<open>\<open>run_pipeline\<close> up to the loop: the workspace, the checkpoint path, the fresh progress
      record, the retriever and its search\<close>
  "start_run env q max_results r =
     (let workspace = workspace_of (data_dir env) q
      in bind_st (mkdirs env (map (joinpath workspace)
                    [''papers'', ''raw_texts'', ''summaries'', ''concept_vectors'', ''.cache'']))
           (\<lambda>_ r1.
              case now env (world r1) of (t0, w1) \<Rightarrow>
              case now env w1 of (t1, w2) \<Rightarrow>
              case now env w2 of (t2, w3) \<Rightarrow>
                bind_st (get_module env ''exa_scraper'')
                  (\<lambda>_. bind_st (collab Search (search env q max_results (joinpath workspace ''papers'')))
                     (\<lambda>papers r2. (Inr (workspace, papers), r2)))
                  (r1\<lparr>world := w3,
                      state_file := Some (state_file_of workspace (strftime_stamp t0)),
                      state := Some \<lparr>query = q, total_papers = 0, processed = [], failed = [],
                                     start_time = t1, last_save = t2\<rparr>\<rparr>))
           r)"

definition run_pipeline ::
  "'w env \<Rightarrow> string \<Rightarrow> int \<Rightarrow> 'w runner \<Rightarrow> (exn + paper list) \<times> 'w runner"
where
  \<comment> \<open>\<open>AthenaRunner.run_pipeline\<close>\<close>
  "run_pipeline env q max_results r =
     bind_st (start_run env q max_results)
       (\<lambda>(workspace, papers) r1.
          if papers = [] then (Inr [], r1\<lparr>logged := logged r1 @ [LogNoPapers]\<rparr>)
          else
            (case state r1 of
               None \<Rightarrow> (Inl (Exn ''AttributeError'' ''NoneType object has no attribute total_papers''), r1)
             | Some st \<Rightarrow>
                 bind_st (run_loop env workspace (length papers) 0 papers)
                   (\<lambda>_ r2.
                      case state r2 of
                        None \<Rightarrow> (Inl (Exn ''AttributeError'' ''NoneType object has no attribute success_rate''), r2)
                      | Some st2 \<Rightarrow>
                          (Inr (processed st2),
                           r2\<lparr>logged := logged r2 @
                                [LogFinished (length (processed st2))
                                   (length (processed st2) + length (failed st2))]\<rparr>))
                   (r1\<lparr>state := Some (st\<lparr>total_papers := int (length papers)\<rparr>)\<rparr>)))
       r"


section \<open>The normalizer of the model's answer\<close>

text \<open>
  \<open>GPTSummarizer._parse_gpt_output\<close> turns the text the language model returned into a
  dictionary with the keys \<open>gpt_summary\<close> and \<open>tags\<close>. It calls two library functions, which
  are parameters here: \<open>unescape\<close> stands for \<open>bytes(s, "utf-8").decode("unicode_escape")\<close>
  and \<open>loads\<close> for \<open>json.loads\<close>. The lines it logs are left out.
\<close>

definition whitespace :: "char \<Rightarrow> bool" where
  \<comment> \<open>\<open>str.isspace\<close> on one character, for the code points below 256\<close>
  "whitespace c =
     (let n = (of_char c :: nat) in
        (9 \<le> n \<and> n \<le> 13) \<or> (28 \<le> n \<and> n \<le> 32) \<or> n = 133 \<or> n = 160)"

definition py_strip :: "string \<Rightarrow> string" where
  \<comment> \<open>\<open>s.strip()\<close>\<close>
  "py_strip s = rev (dropWhile whitespace (rev (dropWhile whitespace s)))"

definition startswith :: "string \<Rightarrow> string \<Rightarrow> bool" where
  "startswith s p = (take (length p) s = p)"

definition endswith :: "string \<Rightarrow> string \<Rightarrow> bool" where
  "endswith s p = (drop (length s - length p) s = p)"

primrec contains :: "string \<Rightarrow> string \<Rightarrow> bool" where
  \<comment> \<open>\<open>p in s\<close>\<close>
  "contains [] p = (p = [])"
| "contains (c # cs) p = (startswith (c # cs) p \<or> contains cs p)"

definition unquote :: "(string \<Rightarrow> exn + string) \<Rightarrow> string \<Rightarrow> exn + string" where
  \<comment> \<open>the first statement of the \<open>try\<close> block: the new value of \<open>result\<close>\<close>
  "unquote unescape result =
     (if startswith result [CHR 0x22] \<and> endswith result [CHR 0x22]
      then unescape (butlast (tl result))
      else Inr result)"

definition brace_span :: "string \<Rightarrow> string option" where
  \<comment> \<open>\<open>re.search(r'\{.*\}', s, re.DOTALL)\<close>: the search takes the first opening brace and,
      the star being greedy and the dot matching every character, goes to the last closing
      brace after it; there is a match when there is one\<close>
  "brace_span s =
     (let t = dropWhile (\<lambda>c. c \<noteq> CHR ''{'') s;
          u = rev (dropWhile (\<lambda>c. c \<noteq> CHR ''}'') (rev t))
      in if u = [] then None else Some u)"

definition py_get :: "pyval \<Rightarrow> string \<Rightarrow> pyval \<Rightarrow> exn + pyval" where
  \<comment> \<open>\<open>v.get(k, default)\<close> on a value of any type\<close>
  "py_get v k dflt =
     (case v of
        PDict d \<Rightarrow> Inr (dict_get d k dflt)
      | _ \<Rightarrow> Inl (Exn ''AttributeError'' ''object has no attribute get''))"

definition double_newlines :: "string \<Rightarrow> string" where
  \<comment> \<open>\<open>s.replace("\n", "\n\n")\<close>\<close>
  "double_newlines s = replace_char (CHR 0x0A) [CHR 0x0A, CHR 0x0A] s"

fun squeeze :: "nat \<Rightarrow> string \<Rightarrow> string" where
  \<comment> \<open>the text after \<open>n\<close> newlines have been read: a run of newlines is written when it
      ends, cut to two\<close>
  "squeeze n [] = replicate (min n 2) (CHR 0x0A)"
| "squeeze n (c # cs) =
     (if c = CHR 0x0A then squeeze (Suc n) cs
      else replicate (min n 2) (CHR 0x0A) @ c # squeeze 0 cs)"

definition collapse_newlines :: "string \<Rightarrow> string" where
  \<comment> \<open>\<open>re.sub(r'\n{3,}', '\n\n', s)\<close>: every maximal run of three or more newlines becomes
      two newlines\<close>
  "collapse_newlines s = squeeze 0 s"

definition replace_strip :: "pyval \<Rightarrow> exn + pyval" where
  \<comment> \<open>\<open>v.replace("\n", "\n\n").strip()\<close> on a value of any type\<close>
  "replace_strip v =
     (case v of
        PStr s \<Rightarrow> Inr (PStr (py_strip (double_newlines s)))
      | _ \<Rightarrow> Inl (Exn ''AttributeError'' ''object has no attribute replace''))"

definition auto_fix :: "(string \<Rightarrow> exn + pyval) \<Rightarrow> pyval \<Rightarrow> string \<Rightarrow> pyval \<times> pyval" where
  \<comment> \<open>the inner \<open>try\<close> block with its handler: the values of \<open>tags\<close> and \<open>summary\<close> after it.
      An exception leaves the assignments made before it in place\<close>
  "auto_fix loads tags summary =
     (case loads summary of
        Inl e \<Rightarrow> (tags, PStr summary)
      | Inr embedded \<Rightarrow>
          (case py_get embedded ''tags'' (PList []) of
             Inl e \<Rightarrow> (tags, PStr summary)
           | Inr tags' \<Rightarrow>
               (case py_get embedded ''summary'' (PStr []) of
                  Inl e \<Rightarrow> (tags', PStr summary)
                | Inr summary' \<Rightarrow>
                    (case replace_strip summary' of
                       Inl e \<Rightarrow> (tags', summary')
                     | Inr summary'' \<Rightarrow> (tags', summary'')))))"

definition parse_body :: "(string \<Rightarrow> exn + pyval) \<Rightarrow> string \<Rightarrow> exn + dict" where
  \<comment> \<open>the \<open>try\<close> block from the search on\<close>
  \<open>parse_body loads result =
     (case brace_span result of
        None \<Rightarrow> Inl (Exn ''ValueError'' ''No JSON object found in result.'')
      | Some m \<Rightarrow>
          bind_err (loads m) (\<lambda>parsed.
          bind_err (py_get parsed ''tags'' (PList [])) (\<lambda>tags0.
          bind_err (py_get parsed ''gpt_summary'' (PStr [])) (\<lambda>first.
          bind_err (if truthy first then Inr first else py_get parsed ''summary'' (PStr []))
            (\<lambda>summary0.
          let tags = (case tags0 of PList ts \<Rightarrow> tags0 | _ \<Rightarrow> PList []);
              summary1 = (case summary0 of PStr s \<Rightarrow> s | _ \<Rightarrow> []);
              summary2 = py_strip (double_newlines summary1);
              summary = collapse_newlines summary2
          in if tags = PList [] \<and> startswith (py_strip summary) ''{'' \<and>
                contains summary ''"tags"''
             then (case auto_fix loads tags summary of
                     (t, s) \<Rightarrow> Inr [(''gpt_summary'', s), (''tags'', t)])
             else Inr [(''gpt_summary'', PStr summary), (''tags'', tags)])))))\<close>

definition fallback :: "string \<Rightarrow> exn + dict" where
  \<comment> \<open>the handler \<open>except Exception\<close>, with the value \<open>result\<close> has when it runs\<close>
  "fallback result = Inr [(''gpt_summary'', PStr (py_strip result)), (''tags'', PList [])]"

definition parse_gpt_output ::
  "(string \<Rightarrow> exn + string) \<Rightarrow> (string \<Rightarrow> exn + pyval) \<Rightarrow> string \<Rightarrow> exn + dict"
where
  \<comment> \<open>\<open>GPTSummarizer._parse_gpt_output\<close>: when the unescaping raises, \<open>result\<close> is still the
      argument; after it, \<open>result\<close> is the unescaped text\<close>
  "parse_gpt_output unescape loads result =
     (case unquote unescape result of
        Inl e \<Rightarrow> fallback result
      | Inr result' \<Rightarrow>
          (case parse_body loads result' of
             Inl e \<Rightarrow> fallback result'
           | Inr d \<Rightarrow> Inr d))"

section \<open>An environment to run the orchestrator in\<close>

text \<open>
  A small environment for running the model on concrete inputs. The retriever finds the
  papers \<open>found\<close>; a collaborator whose name is in \<open>broken\<close> cannot be constructed; the
  extractor cannot reach the address \<open>unreachable\<close> and otherwise returns 300 characters;
  the indexer rejects the title \<open>rejected\<close>; the world counts the times the checkpoint file
  has been opened, and the openings whose number is in \<open>unwritable\<close> fail.
\<close>

definition demo_time :: datetime where
  "demo_time = \<lparr>year = 2025, month = 3, day = 9, hour = 7, minute = 5, second = 0,
                 microsecond = 0\<rparr>"

definition demo_env :: "string list \<Rightarrow> nat list \<Rightarrow> paper list \<Rightarrow> nat env" where
  "demo_env broken unwritable found =
     \<lparr>data_dir = [''/'', ''srv'', ''data''],
      now = (\<lambda>w. (demo_time, w)),
      mkdir = (\<lambda>d w. (Inr (), w)),
      construct = (\<lambda>name w.
        (if name \<in> set broken then Inl (Exn ''ValueError'' (name @ '': missing credential''))
         else Inr (), w)),
      search = (\<lambda>q max_results dir w. (Inr found, w)),
      extract_from_url = (\<lambda>url dir w.
        (if url = PStr ''unreachable'' then Inl (Exn ''ConnectionError'' ''download failed'')
         else Inr [(''raw_text'', PStr (replicate 300 CHR ''x'')), (''pdf_path'', PStr ''p.pdf'')],
         w)),
      summarize = (\<lambda>text w. (Inr [(''gpt_summary'', PStr ''S''), (''tags'', PList [PStr ''a''])], w)),
      get_embedding = (\<lambda>text w. (Inr (PList [PInt 1]), w)),
      add_paper = (\<lambda>d w.
        (if dict_get d ''title'' PNone = PStr ''rejected''
         then Inl (Exn ''MilvusException'' ''insert failed'') else Inr (), w)),
      push_single_paper = (\<lambda>p q w. (Inr (), dict_set p ''query_name'' (PStr q), w)),
      py_hash = (\<lambda>v. Inr 7),
      json_dumps = (\<lambda>d. concat (map (\<lambda>kv. fst kv @ '';'') d)),
      open_w = (\<lambda>f w.
        (if w \<in> set unwritable then Inl (Exn ''OSError'' ''No space left on device'')
         else Inr (), Suc w)),
      write_fails = (\<lambda>f text w. (None, w))\<rparr>"

definition paper_of :: "string \<Rightarrow> string \<Rightarrow> paper" where
  \<comment> \<open>a candidate as the retriever returns it, with no identifier\<close>
  "paper_of title url = [(''title'', PStr title), (''url'', PStr url), (''pdf_url'', PStr url)]"

definition demo_papers :: "paper list" where
  "demo_papers = [paper_of ''A'' ''u1'', paper_of ''B'' ''unreachable'', paper_of ''rejected'' ''u3'']"

definition demo_runner :: "nat runner" where
  \<comment> \<open>a runner at the start of a loop over two papers\<close>
  "demo_runner =
     (init_runner 0 [])
       \<lparr>state := Some \<lparr>query = ''chaos theory'', total_papers = 2, processed = [], failed = [],
                        start_time = demo_time, last_save = demo_time\<rparr>,
        state_file := Some [''ws'', ''.cache'', ''pipeline_state.json'']\<rparr>"

section \<open>Library functions for running the normalizer\<close>

text \<open>
  Two functions to run the normalizer on concrete texts. \<open>unescape_demo\<close> is the codec
  \<open>unicode_escape\<close> after the encoding to UTF-8, with the escapes of one character; the
  escapes that write a code point by its number or name (octal, \<open>\x\<close>, \<open>\u\<close>, \<open>\U\<close>, \<open>\N\<close>)
  are outside it and get an exception of its own, \<open>Unsupported\<close>. \<open>loads_demo\<close> is
  \<open>json.loads\<close> on the documents of the table \<open>demo_documents\<close>; every other text is taken
  not to be a JSON document.
\<close>

definition utf8_bytes :: "string \<Rightarrow> string" where
  \<comment> \<open>\<open>bytes(s, "utf-8")\<close>, a byte written as the character of its number\<close>
  "utf8_bytes s =
     concat (map (\<lambda>c. let n = (of_char c :: nat)
                       in if n < 128 then [c]
                          else [char_of (192 + n div 64), char_of (128 + n mod 64)]) s)"

definition simple_escapes :: "(char \<times> char) list" where
  "simple_escapes =
     [(CHR 0x5C, CHR 0x5C), (CHR 0x27, CHR 0x27), (CHR 0x22, CHR 0x22),
      (CHR ''a'', CHR 0x07), (CHR ''b'', CHR 0x08), (CHR ''f'', CHR 0x0C),
      (CHR ''n'', CHR 0x0A), (CHR ''r'', CHR 0x0D), (CHR ''t'', CHR 0x09),
      (CHR ''v'', CHR 0x0B)]"

fun unicode_escape :: "string \<Rightarrow> exn + string" where
  "unicode_escape [] = Inr []"
| "unicode_escape [c] =
     (if c = CHR 0x5C then Inl (Exn ''UnicodeDecodeError'' (CHR 0x5C # '' at end of string''))
      else Inr [c])"
| "unicode_escape (c # d # cs) =
     (if c = CHR 0x5C
      then (case map_of simple_escapes d of
              Some x \<Rightarrow> bind_err (unicode_escape cs) (\<lambda>r. Inr (x # r))
            | None \<Rightarrow>
                if d = CHR 0x0A then unicode_escape cs
                else if d \<in> set ''01234567xuUN'' then Inl (Exn ''Unsupported'' [c, d])
                else bind_err (unicode_escape cs) (\<lambda>r. Inr (c # d # r)))
      else bind_err (unicode_escape (d # cs)) (\<lambda>r. Inr (c # r)))"

definition unescape_demo :: "string \<Rightarrow> exn + string" where
  "unescape_demo s = unicode_escape (utf8_bytes s)"

definition demo_body :: string where
  \<open>demo_body = ''{"tags": ["a", "b"], "summary": "S"}''\<close>

definition demo_body_spaced :: string where
  \<open>demo_body_spaced = ''{"tags": ["a", "b"], "summary": " S "}''\<close>

definition demo_body_null :: string where
  \<open>demo_body_null = ''{"tags": [], "summary": null}''\<close>

definition json_string :: "string \<Rightarrow> string" where
  \<comment> \<open>a text without control characters as a JSON string: in quotes, with a backslash before
      each quote and backslash\<close>
  "json_string s =
     [CHR 0x22] @
     concat (map (\<lambda>c. if c = CHR 0x22 \<or> c = CHR 0x5C then [CHR 0x5C, c] else [c]) s) @
     [CHR 0x22]"

definition demo_documents :: "(string \<times> pyval) list" where
  "demo_documents =
     [(demo_body, PDict [(''tags'', PList [PStr ''a'', PStr ''b'']), (''summary'', PStr ''S'')]),
      (demo_body_spaced,
       PDict [(''tags'', PList [PStr ''a'', PStr ''b'']), (''summary'', PStr '' S '')]),
      (''{'' @ json_string ''summary'' @ '': '' @ json_string demo_body @ ''}'',
       PDict [(''summary'', PStr demo_body)]),
      (demo_body_null, PDict [(''tags'', PList []), (''summary'', PNone)]),
      (''{'' @ json_string ''summary'' @ '': '' @ json_string demo_body_null @ ''}'',
       PDict [(''summary'', PStr demo_body_null)])]"

definition loads_demo :: "string \<Rightarrow> exn + pyval" where
  "loads_demo s =
     (case map_of demo_documents s of
        Some v \<Rightarrow> Inr v
      | None \<Rightarrow> Inl (Exn ''JSONDecodeError'' ''Expecting value''))"

section \<open>Predicates for the proofs\<close>

text \<open>
  \<open>keeps m\<close> and \<open>frame m\<close>: the statement \<open>m\<close> leaves the progress record, the
  checkpoint path, the files and the log alone. \<open>settles st m\<close>: started with the progress
  record \<open>st\<close>, \<open>m\<close> ends with \<open>st\<close> when it raises and with \<open>st\<close> plus the paper in the
  processed list when it returns. \<open>orderly m\<close>: among the collaborator calls \<open>m\<close> makes,
  only the last can have raised, and then \<open>m\<close> raises that exception.
\<close>

definition keeps :: "('w runner \<Rightarrow> (exn + 'a) \<times> 'w runner) \<Rightarrow> bool" where
  "keeps m =
     (\<forall>r res r'. m r = (res, r') \<longrightarrow>
        state r' = state r \<and> state_file r' = state_file r \<and>
        files r' = files r \<and> logged r' = logged r)"







definition located :: "(string \<Rightarrow> exn + pyval) \<Rightarrow> string \<Rightarrow> dict option" where
  \<comment> \<open>the structured object the normalizer locates in a text, when there is one: the text
      from the first opening brace to the last closing brace parses to an object\<close>
  "located loads r =
     (case brace_span r of
        None \<Rightarrow> None
      | Some m \<Rightarrow> (case loads m of Inr (PDict d) \<Rightarrow> Some d | _ \<Rightarrow> None))"

text \<open>
  For the statements about the normalizer, what it reads in a located object \<open>d\<close>: the
  tag list after the check that it is a list, the summary after the check that it is a
  string and after the rewriting of its newlines and ends, and the text in which the
  auto-fix looks for an embedded object, when the auto-fix applies.
\<close>

definition coerced_tags :: "dict \<Rightarrow> pyval" where
  "coerced_tags d = (case dict_get d ''tags'' (PList []) of PList ts \<Rightarrow> PList ts | _ \<Rightarrow> PList [])"

definition normal_summary :: "dict \<Rightarrow> string" where
  "normal_summary d =
     (let first = dict_get d ''gpt_summary'' (PStr []);
          v = (if truthy first then first else dict_get d ''summary'' (PStr []))
      in collapse_newlines (py_strip (double_newlines (case v of PStr s \<Rightarrow> s | _ \<Rightarrow> []))))"

definition embedded_text :: "dict \<Rightarrow> string option" where
  \<open>embedded_text d =
     (if coerced_tags d = PList [] \<and> startswith (py_strip (normal_summary d)) ''{'' \<and>
         contains (normal_summary d) ''"tags"''
      then Some (normal_summary d) else None)\<close>

section \<open>The workspace name\<close>

lemma split_on_none: "d \<notin> set s \<Longrightarrow> split_on d s = [s]"
  by (induction s) auto

lemma joinpath_component:
  assumes "CHR ''/'' \<notin> set s" and "s \<noteq> ''.''"
  shows "joinpath base s = (if s = [] then base else base @ [s])"
proof -
  have "s \<noteq> [] \<Longrightarrow> hd s \<noteq> CHR ''/''"
    using assms(1) by (cases s) auto
  then show ?thesis
    using assms by (auto simp: joinpath_def split_on_none)
qed

lemma set_strip_chars: "set (strip_chars cs s) \<subseteq> set s"
  unfolding strip_chars_def by (metis set_rev set_dropWhileD subsetI)

lemma set_replace_char: "set (replace_char old new s) \<subseteq> (set s - {old}) \<union> set new"
  unfolding replace_char_def by auto

lemma sanitize_chars:
  "c \<in> set (sanitize q) \<Longrightarrow> isalnum c \<or> c = CHR ''-'' \<or> c = CHR ''_''"
  unfolding sanitize_def using set_replace_char set_strip_chars by fastforce

lemma not_alnum_separators: "\<not> isalnum CHR ''/''" "\<not> isalnum CHR ''.''"
  by (simp_all add: isalnum_def)

lemma sanitize_no_separator:
  "CHR ''/'' \<notin> set (sanitize q)" "CHR ''.'' \<notin> set (sanitize q)"
  using sanitize_chars not_alnum_separators by fastforce+

lemma digit_char_digit: "d < 10 \<Longrightarrow> digit_char d \<in> set ''0123456789''"
proof -
  assume "d < 10"
  then have "d \<in> {0, 1, 2, 3, 4, 5, 6, 7, 8, 9}" by auto
  then show ?thesis by (auto simp: digit_char_def)
qed

lemma str_nat_digits: "set (str_nat n) \<subseteq> set ''0123456789''"
proof (induction n rule: str_nat.induct)
  case (1 n)
  show ?case
  proof (cases "n < 10")
    case True
    then show ?thesis
      using digit_char_digit [of n] by (subst str_nat.simps) simp
  next
    case False
    have "n mod 10 < 10" by simp
    from digit_char_digit [OF this] 1 [OF False] False show ?thesis
      by (subst str_nat.simps) simp
  qed
qed

lemma zfill_digits: "set (zfill w n) \<subseteq> set ''0123456789''"
  using str_nat_digits [of n] by (auto simp: zfill_def)

lemma stamp_no_separator: "CHR ''/'' \<notin> set (strftime_stamp t)"
  using zfill_digits [of 4 "year t"] zfill_digits [of 2 "month t"] zfill_digits [of 2 "day t"]
    zfill_digits [of 2 "hour t"] zfill_digits [of 2 "minute t"] zfill_digits [of 2 "second t"]
  unfolding strftime_stamp_def by auto

lemma state_file_shape:
  "state_file_of w (strftime_stamp t) =
     w @ [''.cache'', ''pipeline_state_'' @ strftime_stamp t @ ''.json'']"
proof -
  have a: "joinpath w ''.cache'' = w @ [''.cache'']"
    by (subst joinpath_component) auto
  have b: "CHR ''/'' \<notin> set (''pipeline_state_'' @ strftime_stamp t @ ''.json'')"
    using stamp_no_separator by auto
  show ?thesis
    unfolding state_file_of_def a by (subst joinpath_component [OF b]) auto
qed

text \<open>
  Claim C10, as the code has it. For every query, the name \<open>_sanitize\<close> derives from it
  holds only alphanumerics, \<open>-\<close> and \<open>_\<close>, so neither a path separator nor a dot. When the
  name is not empty the workspace is the one component of that name directly under the
  data directory; when the name is empty (the empty query, or a query of punctuation only)
  the workspace is the data directory itself. In both cases the checkpoint file lies two
  components below the workspace, in \<open>.cache\<close>, so neither leaves the data directory.
\<close>

theorem sanitize_workspace:
  "(\<forall>c \<in> set (sanitize q). isalnum c \<or> c = CHR ''-'' \<or> c = CHR ''_'') \<and>
   CHR ''/'' \<notin> set (sanitize q) \<and> CHR ''.'' \<notin> set (sanitize q) \<and>
   workspace_of base q = (if sanitize q = [] then base else base @ [sanitize q]) \<and>
   state_file_of (workspace_of base q) (strftime_stamp t) =
     workspace_of base q @ [''.cache'', ''pipeline_state_'' @ strftime_stamp t @ ''.json'']"
proof -
  have "sanitize q \<noteq> ''.''"
    using sanitize_no_separator(2) [of q] by auto
  then have "workspace_of base q =
      (if sanitize q = [] then base else base @ [sanitize q])"
    unfolding workspace_of_def
    using joinpath_component [OF sanitize_no_separator(1)] by blast
  then show ?thesis
    using sanitize_chars sanitize_no_separator state_file_shape by blast
qed

theorem sanitize_workspace_witness:
  "sanitize ''a/b c.d'' = ''a_b_c_d'' \<and>
   workspace_of [''/'', ''srv'', ''data''] ''a/b c.d'' = [''/'', ''srv'', ''data'', ''a_b_c_d'']"
proof -
  have e: "sanitize ''a/b c.d'' = ''a_b_c_d''"
    by code_simp
  show ?thesis
    using sanitize_workspace [of "''a/b c.d''" "[''/'', ''srv'', ''data'']"] e by simp
qed

text \<open>
  The claim as stated fails for a query whose sanitized name is empty: for the query
  \<open>..\<close> the workspace is the data directory, not a directory under it.
\<close>

theorem sanitize_workspace_counterexample:
  "sanitize ''..'' = [] \<and>
   workspace_of [''/'', ''srv'', ''data''] ''..'' = [''/'', ''srv'', ''data'']"
  by code_simp

section \<open>The checkpoint document\<close>

lemma as_papers_map: "as_papers (map PDict ps) = Some ps"
  by (induction ps) auto

lemma failed_pairs_map:
  "failed_pairs (map (\<lambda>(p, e). PDict [(''paper'', PDict p), (''error'', PStr e)]) fs) =
     Inr (map (\<lambda>(p, e). (PDict p, PStr e)) fs)"
  by (induction fs) (auto simp: bind_err_def item_subscript_def subscript_def)

lemma as_failures_map: "as_failures (map (\<lambda>(p, e). (PDict p, PStr e)) fs) = Some fs"
  by (induction fs) auto

text \<open>
  Claim C8. \<open>from_json\<close> applied to \<open>to_json\<close> gives the progress record back: query,
  expected count, the processed list, the failed list of (item, reason) pairs in their
  order, and both timestamps. The two timestamps go through the library's
  \<open>isoformat\<close> and \<open>fromisoformat\<close>, which the theorem takes as given: it asks of them
  only that they are inverse on the two timestamps of the record.
\<close>

theorem checkpoint_roundtrip:
  assumes "fromiso (isofmt (start_time s)) = Inr (start_time s)"
    and "fromiso (isofmt (last_save s)) = Inr (last_save s)"
  shows "from_json fromiso (to_json isofmt s) = Inr s"
  using assms
  by (simp add: from_json_def to_json_def bind_err_def subscript_def iterate_def
      parse_time_def annotated_def failed_pairs_map as_papers_map as_failures_map)

theorem checkpoint_roundtrip_witness:
  "fromisoformat (isoformat \<lparr>year = 2025, month = 3, day = 9, hour = 7, minute = 5,
       second = 0, microsecond = 0\<rparr>) =
     Inr \<lparr>year = 2025, month = 3, day = 9, hour = 7, minute = 5, second = 0, microsecond = 0\<rparr> \<and>
   fromisoformat (isoformat \<lparr>year = 2025, month = 3, day = 9, hour = 7, minute = 5,
       second = 1, microsecond = 1500\<rparr>) =
     Inr \<lparr>year = 2025, month = 3, day = 9, hour = 7, minute = 5, second = 1,
          microsecond = 1500\<rparr> \<and>
   from_json fromisoformat
     (to_json isoformat
        \<lparr>query = ''chaos'', total_papers = 2,
         processed = [[(''title'', PStr ''A''), (''id'', PStr ''7'')]],
         failed = [([(''title'', PStr ''B'')], ''Extracted content too short.'')],
         start_time = \<lparr>year = 2025, month = 3, day = 9, hour = 7, minute = 5,
           second = 0, microsecond = 0\<rparr>,
         last_save = \<lparr>year = 2025, month = 3, day = 9, hour = 7, minute = 5,
           second = 1, microsecond = 1500\<rparr>\<rparr>) =
     Inr \<lparr>query = ''chaos'', total_papers = 2,
         processed = [[(''title'', PStr ''A''), (''id'', PStr ''7'')]],
         failed = [([(''title'', PStr ''B'')], ''Extracted content too short.'')],
         start_time = \<lparr>year = 2025, month = 3, day = 9, hour = 7, minute = 5,
           second = 0, microsecond = 0\<rparr>,
         last_save = \<lparr>year = 2025, month = 3, day = 9, hour = 7, minute = 5,
           second = 1, microsecond = 1500\<rparr>\<rparr>"
proof -
  have a: "fromisoformat (isoformat \<lparr>year = 2025, month = 3, day = 9, hour = 7, minute = 5,
       second = 0, microsecond = 0\<rparr>) =
     Inr \<lparr>year = 2025, month = 3, day = 9, hour = 7, minute = 5, second = 0, microsecond = 0\<rparr>"
    by code_simp
  have b: "fromisoformat (isoformat \<lparr>year = 2025, month = 3, day = 9, hour = 7, minute = 5,
       second = 1, microsecond = 1500\<rparr>) =
     Inr \<lparr>year = 2025, month = 3, day = 9, hour = 7, minute = 5, second = 1,
          microsecond = 1500\<rparr>"
    by code_simp
  show ?thesis
    using a b
      checkpoint_roundtrip [of fromisoformat isoformat
        "\<lparr>query = ''chaos'', total_papers = 2,
         processed = [[(''title'', PStr ''A''), (''id'', PStr ''7'')]],
         failed = [([(''title'', PStr ''B'')], ''Extracted content too short.'')],
         start_time = \<lparr>year = 2025, month = 3, day = 9, hour = 7, minute = 5,
           second = 0, microsecond = 0\<rparr>,
         last_save = \<lparr>year = 2025, month = 3, day = 9, hour = 7, minute = 5,
           second = 1, microsecond = 1500\<rparr>\<rparr>"]
    by simp
qed

section \<open>One paper\<close>



lemma keeps_outside: "keeps (outside f)"
  unfolding keeps_def outside_def by (auto split: prod.splits)


lemma keeps_bind:
  assumes "keeps m" and "\<And>a. keeps (f a)"
  shows "keeps (bind_st m f)"
  unfolding keeps_def
proof (intro allI impI)
  fix r res r'
  assume b: "bind_st m f r = (res, r')"
  obtain r1 q1 where m: "m r = (r1, q1)"
    by fastforce
  from assms(1) m have fr: "state q1 = state r" "state_file q1 = state_file r"
    "files q1 = files r" "logged q1 = logged r"
    unfolding keeps_def by blast+
  show "state r' = state r \<and> state_file r' = state_file r \<and>
        files r' = files r \<and> logged r' = logged r"
  proof (cases r1)
    case (Inl e)
    then have "r' = q1" using b m by (simp add: bind_st_def)
    then show ?thesis using fr by simp
  next
    case (Inr a)
    then have "f a q1 = (res, r')" using b m by (simp add: bind_st_def)
    with assms(2) [of a] show ?thesis
      using fr unfolding keeps_def by metis
  qed
qed












subsection \<open>The order of the collaborator calls\<close>













section \<open>The loop over the papers\<close>


lemma successes_append: "successes (xs @ ys) = successes xs @ successes ys"
  by (induction xs rule: successes.induct) auto

lemma failures_append: "failures (xs @ ys) = failures xs @ failures ys"
  by (induction xs rule: failures.induct) auto









lemma keeps_mkdirs: "keeps (mkdirs env ds)"
proof (induction ds)
  case Nil
  show ?case by (simp add: keeps_def)
next
  case (Cons d ds)
  have "keeps (bind_st (outside (mkdir env d)) (\<lambda>_. mkdirs env ds))"
    by (intro keeps_bind keeps_outside Cons)
  then show ?case
    unfolding keeps_def by simp
qed


text \<open>The equations that run the model on a concrete input.\<close>

lemmas run_eval =
  demo_env_def demo_papers_def paper_of_def init_runner_def
  start_run_def run_pipeline_def run_item_def try_paper_def process_paper_def get_module_def cls_map_def
  bind_st_def bind_err_def outside_def collab_def raised_def on_runner_def on_paper_def
  raise_if_def publish_def mark_processed_def check_content_def py_len_def fallback_id_def
  index_record_def dict_get_def dict_set_def subscript_def announce_def record_failure_def
  auto_save_def item_outcome_def Let_def



section \<open>Failures of single papers\<close>







section \<open>A checkpoint write that raises\<close>







section \<open>A collaborator that cannot be constructed\<close>























section \<open>The checkpoint file\<close>

lemma map_of_appends:
  "map_of (fold apply_op (map (\<lambda>c. Append f [c]) cs) fs) g =
     (if g = f \<and> cs \<noteq> [] then Some (file_content fs f @ cs) else map_of fs g)"
proof (induction cs arbitrary: fs)
  case Nil
  then show ?case by simp
next
  case (Cons c cs)
  let ?fs = "AList.update f (file_content fs f @ [c]) fs"
  have "file_content ?fs f = file_content fs f @ [c]"
    by (simp add: file_content_def update_conv')
  moreover have "map_of ?fs g = (if g = f then Some (file_content fs f @ [c]) else map_of fs g)"
    by (simp add: update_conv')
  ultimately show ?case
    using Cons [of ?fs] by (simp add: update_conv')
qed

lemma save_prefix:
  "map_of (fold apply_op (take (Suc j) (save_ops f doc)) fs) g =
     (if g = f then Some (take j doc) else map_of fs g)"
proof -
  let ?fs = "AList.update f [] fs"
  have "fold apply_op (take (Suc j) (save_ops f doc)) fs =
      fold apply_op (map (\<lambda>c. Append f [c]) (take j doc)) ?fs"
    by (simp add: save_ops_def take_map)
  moreover have "file_content ?fs f = []"
    by (simp add: file_content_def update_conv')
  moreover have "map_of ?fs g = (if g = f then Some [] else map_of fs g)"
    by (simp add: update_conv')
  ultimately show ?thesis
    by (simp add: map_of_appends update_conv')
qed

lemma save_complete:
  "map_of (fold apply_op (save_ops f doc) fs) g =
     (if g = f then Some doc else map_of fs g)"
  using save_prefix [of "length doc" f doc fs g] by (simp add: save_ops_def)

text \<open>
  Claim C4, as the code has it. A save that returns has written the whole progress record:
  the checkpoint file holds the text of the full document, whatever it held before, and no
  other file is touched, so there is no temporary file and no renaming. The save is not
  atomic: the file is opened for writing in place, which empties it, and the text is then
  written into it, so while the save runs the checkpoint file holds a beginning of the new
  text (at first nothing) and the checkpoint saved before is gone.
\<close>

theorem checkpoint_written_in_place:
  assumes "state r = Some st" and "state_file r = Some f"
    and "auto_save env r = (Inr (), r')"
  shows "\<exists>t. state r' = Some (st\<lparr>last_save := t\<rparr>) \<and>
           map_of (files r') f = Some (json_dumps env (to_json isoformat (st\<lparr>last_save := t\<rparr>))) \<and>
           (\<forall>g. g \<noteq> f \<longrightarrow> map_of (files r') g = map_of (files r) g) \<and>
           (\<forall>j. map_of (fold apply_op
                          (take (Suc j)
                             (save_ops f (json_dumps env (to_json isoformat (st\<lparr>last_save := t\<rparr>)))))
                          (files r)) f =
                 Some (take j (json_dumps env (to_json isoformat (st\<lparr>last_save := t\<rparr>)))))"
proof -
  obtain t w1 where n: "now env (world r) = (t, w1)"
    by fastforce
  let ?st = "st\<lparr>last_save := t\<rparr>"
  let ?text = "json_dumps env (to_json isoformat ?st)"
  let ?r1 = "r\<lparr>state := Some ?st, world := w1\<rparr>"
  obtain ores w2 where o: "open_w env f w1 = (ores, w2)"
    by fastforce
  obtain wres w3 where w: "write_fails env f ?text w2 = (wres, w3)"
    by fastforce
  have ores: "ores = Inr ()"
    using assms n o by (cases ores) (auto simp: auto_save_def Let_def bind_st_def outside_def)
  have wres: "wres = None"
    using assms n o w ores
    by (cases wres) (auto simp: auto_save_def Let_def bind_st_def outside_def)
  have r': "r' = ?r1\<lparr>world := w3, files := fold apply_op (save_ops f ?text) (files r),
                      logged := logged r @ [LogAutoSaved f]\<rparr>"
    using assms n o w ores wres by (simp add: auto_save_def Let_def bind_st_def outside_def)
  have "state r' = Some ?st"
    using r' by simp
  moreover have "map_of (files r') f = Some ?text"
    using r' by (simp add: save_complete)
  moreover have "\<forall>g. g \<noteq> f \<longrightarrow> map_of (files r') g = map_of (files r) g"
    using r' by (simp add: save_complete)
  moreover have "\<forall>j. map_of (fold apply_op (take (Suc j) (save_ops f ?text)) (files r)) f =
      Some (take j ?text)"
    by (simp add: save_prefix)
  ultimately show ?thesis
    by blast
qed

theorem checkpoint_written_in_place_witness:
  "fst (auto_save (demo_env [] [] [])
          (demo_runner\<lparr>files := [([''ws'', ''.cache'', ''pipeline_state.json''], ''old'')]\<rparr>)) =
     Inr () \<and>
   map_of (files (snd (auto_save (demo_env [] [] [])
          (demo_runner\<lparr>files := [([''ws'', ''.cache'', ''pipeline_state.json''], ''old'')]\<rparr>))))
     [''ws'', ''.cache'', ''pipeline_state.json''] =
     Some ''query;total_papers;processed;failed;start_time;last_save;''"
proof -
  let ?env = "demo_env [] [] []"
  let ?f = "[''ws'', ''.cache'', ''pipeline_state.json'']"
  let ?r = "demo_runner\<lparr>files := [(?f, ''old'')]\<rparr>"
  let ?st = "\<lparr>query = ''chaos theory'', total_papers = 2, processed = [], failed = [],
              start_time = demo_time, last_save = demo_time\<rparr>"
  have h1: "state ?r = Some ?st"
    by (simp add: demo_runner_def init_runner_def)
  have h2: "state_file ?r = Some ?f"
    by (simp add: demo_runner_def init_runner_def)
  have a: "fst (auto_save ?env ?r) = Inr ()"
    by (simp add: run_eval demo_runner_def)
  then have h3: "auto_save ?env ?r = (Inr (), snd (auto_save ?env ?r))"
    by (metis prod.collapse)
  from checkpoint_written_in_place [OF h1 h2 h3] obtain t where
    "map_of (files (snd (auto_save ?env ?r))) ?f =
       Some (json_dumps ?env (to_json isoformat (?st\<lparr>last_save := t\<rparr>)))"
    by blast
  then have "map_of (files (snd (auto_save ?env ?r))) ?f =
      Some ''query;total_papers;processed;failed;start_time;last_save;''"
    by (simp add: demo_env_def to_json_def)
  with a show ?thesis
    by (intro conjI)
qed

text \<open>
  The claim as stated fails: after the first operation of a save, the opening of the file,
  a checkpoint file that held the text \<open>old\<close> is empty; a process that stops there leaves
  no checkpoint that can be read.
\<close>

theorem checkpoint_written_in_place_counterexample:
  "take 1 (save_ops [''ws'', ''.cache'', ''pipeline_state.json''] ''new'') =
     [Truncate [''ws'', ''.cache'', ''pipeline_state.json'']] \<and>
   map_of (fold apply_op (take 1 (save_ops [''ws'', ''.cache'', ''pipeline_state.json''] ''new''))
             [([''ws'', ''.cache'', ''pipeline_state.json''], ''old'')])
     [''ws'', ''.cache'', ''pipeline_state.json''] = Some []"
  by (simp add: save_ops_def)

section \<open>The identifier of a paper that came without one\<close>

text \<open>
  Claim C5. A paper that the retriever returned without an identifier gets the decimal
  text of \<open>hash(title)\<close>, the built-in hash of the interpreter. For a string that hash
  depends on the seed the interpreter draws when it starts, so it is a value of the
  process: \<open>py_hash\<close> is a field of the environment. In two processes whose hash of the
  title \<open>A\<close> is 4413049722934271498 and -8256722398577707786 the same paper gets two
  different identifiers, so the identifier is not derived from the title alone.
\<close>

theorem fallback_id_process_local:
  "fallback_id ((demo_env [] [] [])\<lparr>py_hash := (\<lambda>v. Inr 4413049722934271498)\<rparr>)
       (paper_of ''A'' ''u1'') =
     Inr [(''title'', PStr ''A''), (''url'', PStr ''u1''), (''pdf_url'', PStr ''u1''),
          (''id'', PStr ''4413049722934271498'')] \<and>
   fallback_id ((demo_env [] [] [])\<lparr>py_hash := (\<lambda>v. Inr (- 8256722398577707786))\<rparr>)
       (paper_of ''A'' ''u1'') =
     Inr [(''title'', PStr ''A''), (''url'', PStr ''u1''), (''pdf_url'', PStr ''u1''),
          (''id'', PStr ''-8256722398577707786'')]"
proof -
  have a: "str_int 4413049722934271498 = ''4413049722934271498''"
    by (simp add: str_int_def str_nat.simps digit_char_def)
  have b: "str_int (- 8256722398577707786) = ''-8256722398577707786''"
    by (simp add: str_int_def str_nat.simps digit_char_def)
  show ?thesis
    by (simp add: fallback_id_def paper_of_def dict_get_def dict_set_def bind_err_def a b)
qed

section \<open>The normalizer\<close>

lemmas normalizer_eval =
  parse_gpt_output_def unquote_def startswith_def endswith_def unescape_demo_def utf8_bytes_def
  simple_escapes_def parse_body_def brace_span_def fallback_def py_strip_def whitespace_def
  demo_body_def demo_body_spaced_def demo_body_null_def json_string_def demo_documents_def
  loads_demo_def
  bind_err_def py_get_def dict_get_def double_newlines_def replace_char_def
  collapse_newlines_def auto_fix_def replace_strip_def located_def
  coerced_tags_def normal_summary_def embedded_text_def

lemma parse_body_shape:
  assumes "parse_body loads r = Inr d"
  shows "\<exists>s t. d = [(''gpt_summary'', s), (''tags'', t)]"
proof -
  obtain m where m: "brace_span r = Some m"
    using assms by (cases "brace_span r") (auto simp: parse_body_def)
  obtain parsed where p: "loads m = Inr parsed"
    using assms m by (cases "loads m") (auto simp: parse_body_def bind_err_def)
  obtain tags0 where t: "py_get parsed ''tags'' (PList []) = Inr tags0"
    using assms m p
    by (cases "py_get parsed ''tags'' (PList [])") (auto simp: parse_body_def bind_err_def)
  obtain first where f: "py_get parsed ''gpt_summary'' (PStr []) = Inr first"
    using assms m p t
    by (cases "py_get parsed ''gpt_summary'' (PStr [])") (auto simp: parse_body_def bind_err_def)
  obtain summary0 where
    s: "(if truthy first then Inr first else py_get parsed ''summary'' (PStr [])) = Inr summary0"
    using assms m p t f
    by (cases "if truthy first then Inr first else py_get parsed ''summary'' (PStr [])")
      (auto simp: parse_body_def bind_err_def)
  show ?thesis
    using assms
    unfolding parse_body_def m option.case p t f s bind_err_def sum.case Let_def
    by (auto split: if_splits prod.splits)
qed

lemma parse_body_unlocated:
  assumes "located loads r = None"
  shows "\<exists>e. parse_body loads r = Inl e"
proof (cases "brace_span r")
  case None
  then show ?thesis
    by (simp add: parse_body_def)
next
  case (Some m)
  show ?thesis
  proof (cases "loads m")
    case (Inl e)
    then show ?thesis
      using Some by (simp add: parse_body_def bind_err_def)
  next
    case (Inr parsed)
    then have "\<forall>d. parsed \<noteq> PDict d"
      using assms Some by (auto simp: located_def)
    then have "\<exists>e. py_get parsed ''tags'' (PList []) = Inl e"
      by (cases parsed) (auto simp: py_get_def)
    then show ?thesis
      using Some Inr by (auto simp: parse_body_def bind_err_def)
  qed
qed

lemma parse_body_located:
  assumes "located loads r = Some d"
  shows "parse_body loads r =
     (case embedded_text d of
        None \<Rightarrow> Inr [(''gpt_summary'', PStr (normal_summary d)), (''tags'', coerced_tags d)]
      | Some s \<Rightarrow>
          (case auto_fix loads (coerced_tags d) s of
             (t, v) \<Rightarrow> Inr [(''gpt_summary'', v), (''tags'', t)]))"
proof -
  obtain m where m: "brace_span r = Some m"
    using assms by (cases "brace_span r") (auto simp: located_def)
  have p: "loads m = Inr (PDict d)"
    using assms m by (auto simp: located_def split: sum.splits pyval.splits)
  have t: "(case dict_get d ''tags'' (PList []) of PList ts \<Rightarrow> dict_get d ''tags'' (PList [])
            | _ \<Rightarrow> PList []) = coerced_tags d"
    by (cases "dict_get d ''tags'' (PList [])") (simp_all add: coerced_tags_def)
  show ?thesis
  proof (cases "truthy (dict_get d ''gpt_summary'' (PStr []))")
    case True
    show ?thesis
      unfolding parse_body_def m option.case p bind_err_def sum.case py_get_def pyval.case
      using True t by (simp add: Let_def embedded_text_def normal_summary_def)
  next
    case False
    show ?thesis
      unfolding parse_body_def m option.case p bind_err_def sum.case py_get_def pyval.case
      using False t by (simp add: Let_def embedded_text_def normal_summary_def)
  qed
qed

lemma auto_fix_typed:
  assumes "\<And>emb. loads s = Inr (PDict emb) \<Longrightarrow>
      (\<exists>ts. dict_get emb ''tags'' (PList []) = PList ts) \<and>
      (\<exists>x. dict_get emb ''summary'' (PStr []) = PStr x)"
  shows "\<exists>ts x. auto_fix loads (PList []) s = (PList ts, PStr x)"
proof (cases "loads s")
  case (Inl e)
  then show ?thesis
    by (simp add: auto_fix_def)
next
  case (Inr embedded)
  show ?thesis
  proof (cases "\<exists>emb. embedded = PDict emb")
    case False
    then have "\<exists>e. py_get embedded ''tags'' (PList []) = Inl e"
      by (cases embedded) (auto simp: py_get_def)
    then show ?thesis
      using Inr by (auto simp: auto_fix_def)
  next
    case True
    then obtain emb where emb: "embedded = PDict emb"
      by blast
    from assms [of emb] Inr emb obtain ts x where
      "dict_get emb ''tags'' (PList []) = PList ts" "dict_get emb ''summary'' (PStr []) = PStr x"
      by blast
    then show ?thesis
      using Inr emb by (simp add: auto_fix_def py_get_def replace_strip_def)
  qed
qed

lemma embedded_text_tags: "embedded_text d = Some s \<Longrightarrow> coerced_tags d = PList []"
  by (simp add: embedded_text_def split: if_splits)

lemma coerced_tags_list: "\<exists>ts. coerced_tags d = PList ts"
  by (cases "dict_get d ''tags'' (PList [])") (simp_all add: coerced_tags_def)

text \<open>
  Claim C3, as the code has it. For every input text, and whatever the two library
  functions do, the normalizer returns a dictionary with a summary and a tag list; it does
  not raise. When no object is located the summary is the trimmed text and the tag list is
  empty, where the text is the one the object is looked for in: the input itself, unless
  the input starts and ends with a double quote and what is between the quotes can be
  unescaped; then it is that unescaped inside. When the unescaping raises, the result is
  the trimmed input with an empty tag list. The summary returned is a string and the tags
  are a list whenever the object that the auto-fix reads inside the summary field, if it
  reads one, has a list under \<open>tags\<close> and a string under \<open>summary\<close>; the statement leaves open
  what is returned for another embedded object, which the lemma after the theorems
  evaluates.
\<close>

theorem normalizer_never_raises:
  "(\<exists>s t. parse_gpt_output unescape loads result =
            Inr [(''gpt_summary'', s), (''tags'', t)]) \<and>
   (\<forall>r. unquote unescape result = Inr r \<longrightarrow> located loads r = None \<longrightarrow>
        parse_gpt_output unescape loads result =
          Inr [(''gpt_summary'', PStr (py_strip r)), (''tags'', PList [])]) \<and>
   (\<forall>e. unquote unescape result = Inl e \<longrightarrow>
        parse_gpt_output unescape loads result =
          Inr [(''gpt_summary'', PStr (py_strip result)), (''tags'', PList [])]) \<and>
   (\<not> (startswith result [CHR 0x22] \<and> endswith result [CHR 0x22]) \<longrightarrow>
        unquote unescape result = Inr result) \<and>
   ((\<forall>r d s emb. unquote unescape result = Inr r \<longrightarrow> located loads r = Some d \<longrightarrow>
        embedded_text d = Some s \<longrightarrow> loads s = Inr (PDict emb) \<longrightarrow>
        (\<exists>ts. dict_get emb ''tags'' (PList []) = PList ts) \<and>
        (\<exists>x. dict_get emb ''summary'' (PStr []) = PStr x)) \<longrightarrow>
    (\<exists>x ts. parse_gpt_output unescape loads result =
              Inr [(''gpt_summary'', PStr x), (''tags'', PList ts)]))"
proof -
  have a: "\<exists>s t. parse_gpt_output unescape loads result =
      Inr [(''gpt_summary'', s), (''tags'', t)]"
  proof (cases "unquote unescape result")
    case (Inl e)
    then show ?thesis
      by (simp add: parse_gpt_output_def fallback_def)
  next
    case (Inr r)
    show ?thesis
    proof (cases "parse_body loads r")
      case (Inl e)
      then show ?thesis
        using Inr by (simp add: parse_gpt_output_def fallback_def)
    next
      case inner: (Inr d)
      from parse_body_shape [OF inner] show ?thesis
        using Inr inner by (simp add: parse_gpt_output_def)
    qed
  qed
  have b: "parse_gpt_output unescape loads result =
      Inr [(''gpt_summary'', PStr (py_strip r)), (''tags'', PList [])]"
    if "unquote unescape result = Inr r" and "located loads r = None" for r
    using that parse_body_unlocated [OF that(2)]
    by (auto simp: parse_gpt_output_def fallback_def)
  have c: "parse_gpt_output unescape loads result =
      Inr [(''gpt_summary'', PStr (py_strip result)), (''tags'', PList [])]"
    if "unquote unescape result = Inl e" for e
    using that by (simp add: parse_gpt_output_def fallback_def)
  have d: "\<not> (startswith result [CHR 0x22] \<and> endswith result [CHR 0x22]) \<longrightarrow>
      unquote unescape result = Inr result"
    by (simp add: unquote_def)
  have e: "\<exists>x ts. parse_gpt_output unescape loads result =
      Inr [(''gpt_summary'', PStr x), (''tags'', PList ts)]"
    if h: "\<forall>r d s emb. unquote unescape result = Inr r \<longrightarrow> located loads r = Some d \<longrightarrow>
        embedded_text d = Some s \<longrightarrow> loads s = Inr (PDict emb) \<longrightarrow>
        (\<exists>ts. dict_get emb ''tags'' (PList []) = PList ts) \<and>
        (\<exists>x. dict_get emb ''summary'' (PStr []) = PStr x)"
  proof (cases "unquote unescape result")
    case (Inl e)
    then show ?thesis
      by (simp add: parse_gpt_output_def fallback_def)
  next
    case (Inr r)
    show ?thesis
    proof (cases "located loads r")
      case None
      from b [OF Inr None] show ?thesis
        by simp
    next
      case (Some d)
      note pb = parse_body_located [OF Some]
      show ?thesis
      proof (cases "embedded_text d")
        case None
        obtain ts where "coerced_tags d = PList ts"
          using coerced_tags_list by blast
        then show ?thesis
          using Inr pb None by (simp add: parse_gpt_output_def)
      next
        case inner: (Some s)
        have "\<exists>ts x. auto_fix loads (PList []) s = (PList ts, PStr x)"
        proof (rule auto_fix_typed)
          fix emb
          assume "loads s = Inr (PDict emb)"
          with h Inr Some inner
          show "(\<exists>ts. dict_get emb ''tags'' (PList []) = PList ts) \<and>
              (\<exists>x. dict_get emb ''summary'' (PStr []) = PStr x)"
            by blast
        qed
        then obtain ts x where "auto_fix loads (coerced_tags d) s = (PList ts, PStr x)"
          unfolding embedded_text_tags [OF inner] by blast
        then show ?thesis
          using Inr pb inner by (simp add: parse_gpt_output_def)
      qed
    qed
  qed
  from a b c d e show ?thesis
    by blast
qed

theorem normalizer_never_raises_witness:
  "parse_gpt_output unescape_demo loads_demo ''  plain prose '' =
     Inr [(''gpt_summary'', PStr ''plain prose''), (''tags'', PList [])] \<and>
   parse_gpt_output unescape_demo loads_demo [] =
     Inr [(''gpt_summary'', PStr []), (''tags'', PList [])] \<and>
   parse_gpt_output unescape_demo loads_demo (json_string demo_body) =
     Inr [(''gpt_summary'', PStr ''S''), (''tags'', PList [PStr ''a'', PStr ''b''])] \<and>
   parse_gpt_output unescape_demo loads_demo
       (''{'' @ json_string ''summary'' @ '': '' @ json_string demo_body @ ''}'') =
     Inr [(''gpt_summary'', PStr ''S''), (''tags'', PList [PStr ''a'', PStr ''b''])]"
proof -
  have u: "unquote unescape_demo ''  plain prose '' = Inr ''  plain prose ''"
    by (simp add: unquote_def startswith_def)
  have l: "located loads_demo ''  plain prose '' = None"
    by (simp add: located_def brace_span_def)
  have s: "py_strip ''  plain prose '' = ''plain prose''"
    by (simp add: py_strip_def whitespace_def)
  have "parse_gpt_output unescape_demo loads_demo ''  plain prose '' =
      Inr [(''gpt_summary'', PStr (py_strip ''  plain prose '')), (''tags'', PList [])]"
    using normalizer_never_raises [of unescape_demo loads_demo "''  plain prose ''"] u l
    by blast
  then have a: "parse_gpt_output unescape_demo loads_demo ''  plain prose '' =
      Inr [(''gpt_summary'', PStr ''plain prose''), (''tags'', PList [])]"
    unfolding s .
  have b: "parse_gpt_output unescape_demo loads_demo [] =
      Inr [(''gpt_summary'', PStr []), (''tags'', PList [])]"
    by (simp add: normalizer_eval)
  have c: "parse_gpt_output unescape_demo loads_demo (json_string demo_body) =
      Inr [(''gpt_summary'', PStr ''S''), (''tags'', PList [PStr ''a'', PStr ''b''])]"
    by (simp add: normalizer_eval)
  have d: "parse_gpt_output unescape_demo loads_demo
       (''{'' @ json_string ''summary'' @ '': '' @ json_string demo_body @ ''}'') =
      Inr [(''gpt_summary'', PStr ''S''), (''tags'', PList [PStr ''a'', PStr ''b''])]"
    by (simp add: normalizer_eval)
  let ?emb = "''{'' @ json_string ''summary'' @ '': '' @ json_string demo_body @ ''}''"
  have ue: "unquote unescape_demo ?emb = Inr ?emb"
    by (simp add: unquote_def startswith_def)
  have le: "located loads_demo ?emb = Some [(''summary'', PStr demo_body)]"
    by (simp add: normalizer_eval)
  have ee: "embedded_text [(''summary'', PStr demo_body)] = Some demo_body"
    by (simp add: normalizer_eval)
  have lb: "loads_demo demo_body =
      Inr (PDict [(''tags'', PList [PStr ''a'', PStr ''b'']), (''summary'', PStr ''S'')])"
    by (simp add: normalizer_eval)
  have "\<forall>r d s emb. unquote unescape_demo ?emb = Inr r \<longrightarrow> located loads_demo r = Some d \<longrightarrow>
      embedded_text d = Some s \<longrightarrow> loads_demo s = Inr (PDict emb) \<longrightarrow>
      (\<exists>ts. dict_get emb ''tags'' (PList []) = PList ts) \<and>
      (\<exists>x. dict_get emb ''summary'' (PStr []) = PStr x)"
    unfolding ue using le ee lb by (auto simp: dict_get_def)
  with normalizer_never_raises [of unescape_demo loads_demo ?emb]
  have "\<exists>x ts. parse_gpt_output unescape_demo loads_demo ?emb =
      Inr [(''gpt_summary'', PStr x), (''tags'', PList ts)]"
    by blast
  from a b c d show ?thesis
    by (intro conjI)
qed

text \<open>
  The claim as stated fails for an input in double quotes: in the text \<open>"abc"\<close> no object
  is located, and the summary is \<open>abc\<close>, the inside of the quotes, not the trimmed input.
\<close>

theorem normalizer_never_raises_counterexample:
  \<open>parse_gpt_output unescape_demo loads_demo ''"abc"'' =
     Inr [(''gpt_summary'', PStr ''abc''), (''tags'', PList [])] \<and>
   located loads_demo ''"abc"'' = None \<and>
   py_strip ''"abc"'' = ''"abc"'' \<and> ''abc'' \<noteq> ''"abc"''\<close>
  by (simp add: normalizer_eval)

text \<open>
  The auto-fix takes the entries of the embedded object as they are, without the checks
  that the entries of the outer object get: for the answer
  \<open>{"summary": "{\"tags\": [], \"summary\": null}"}\<close> the summary returned is \<open>None\<close>.
\<close>

lemma auto_fix_unchecked:
  "parse_gpt_output unescape_demo loads_demo
       (''{'' @ json_string ''summary'' @ '': '' @ json_string demo_body_null @ ''}'') =
     Inr [(''gpt_summary'', PNone), (''tags'', PList [])]"
  by (simp add: normalizer_eval)

lemma brace_span_embedded:
  assumes "CHR ''{'' \<notin> set pre" and "CHR ''}'' \<notin> set post"
    and "startswith body ''{''" and "endswith body ''}''"
  shows "brace_span (pre @ body @ post) = Some body"
proof -
  obtain rest where b: "body = CHR ''{'' # rest"
    using assms(3) by (cases body) (auto simp: startswith_def)
  have ne: "body \<noteq> []"
    using b by simp
  have l: "last body = CHR ''}''"
  proof -
    have "drop (length body - 1) body = [CHR ''}'']"
      using assms(4) by (simp add: endswith_def)
    moreover have "drop (length body - 1) body = [last body]"
      using ne by (metis append_butlast_last_id append_eq_conv_conj length_butlast)
    ultimately show ?thesis
      by simp
  qed
  have d1: "dropWhile (\<lambda>c. c \<noteq> CHR ''{'') (pre @ body @ post) = body @ post"
    using assms(1) b by (auto simp: dropWhile_append3)
  have d2: "dropWhile (\<lambda>c. c \<noteq> CHR ''}'') (rev (body @ post)) = rev body"
  proof -
    have "body = butlast body @ [CHR ''}'']"
      using ne l by (metis append_butlast_last_id)
    then have rb: "rev body = CHR ''}'' # rev (butlast body)"
      by (metis rev.simps(2) rev_append rev_rev_ident append_Cons append_Nil rev_singleton_conv)
    have "dropWhile (\<lambda>c. c \<noteq> CHR ''}'') (rev post) = []"
      using assms(2) by (auto simp: dropWhile_eq_Nil_conv)
    then have "dropWhile (\<lambda>c. c \<noteq> CHR ''}'') (rev post @ CHR ''}'' # rev (butlast body)) =
        CHR ''}'' # rev (butlast body)"
      by (simp add: dropWhile_append3)
    then show ?thesis
      unfolding rev_append rb .
  qed
  show ?thesis
    unfolding brace_span_def Let_def d1 d2 rev_rev_ident using ne by simp
qed

lemma double_newlines_none: "CHR 0x0A \<notin> set s \<Longrightarrow> double_newlines s = s"
  by (induction s) (auto simp: double_newlines_def replace_char_def)

lemma collapse_newlines_none: "CHR 0x0A \<notin> set s \<Longrightarrow> collapse_newlines s = s"
  unfolding collapse_newlines_def by (induction s) auto

text \<open>
  Claim C7, as the code has it. The object is looked for in the text from the first
  opening brace to the last closing brace, so the body is found when no opening brace
  stands before it and no closing brace after it; the text is the blob, or the unescaped
  inside of the quotes for a blob in double quotes. The tag list is then \<open>["a", "b"]\<close> in
  this order, and the summary is \<open>S\<close> with every newline doubled, the white space at its
  ends removed and every run of three or more newlines cut to two: it is \<open>S\<close> itself when
  \<open>S\<close> has no newline and no white space at its ends.
\<close>

theorem normalizer_embedded_body:
  assumes "unquote unescape blob = Inr (pre @ body @ post)"
    and "CHR ''{'' \<notin> set pre" and "CHR ''}'' \<notin> set post"
    and "startswith body ''{''" and "endswith body ''}''"
    and "loads body = Inr (PDict [(''tags'', PList [PStr a, PStr b]), (''summary'', PStr S)])"
  shows "parse_gpt_output unescape loads blob =
           Inr [(''gpt_summary'', PStr (collapse_newlines (py_strip (double_newlines S)))),
                (''tags'', PList [PStr a, PStr b])] \<and>
         (CHR 0x0A \<notin> set S \<longrightarrow> py_strip S = S \<longrightarrow>
            parse_gpt_output unescape loads blob =
              Inr [(''gpt_summary'', PStr S), (''tags'', PList [PStr a, PStr b])])"
proof -
  have span: "brace_span (pre @ body @ post) = Some body"
    using assms(2-5) by (rule brace_span_embedded)
  have "parse_body loads (pre @ body @ post) =
      Inr [(''gpt_summary'', PStr (collapse_newlines (py_strip (double_newlines S)))),
           (''tags'', PList [PStr a, PStr b])]"
    unfolding parse_body_def span option.case assms(6) bind_err_def sum.case
    by (simp add: py_get_def dict_get_def)
  then have main: "parse_gpt_output unescape loads blob =
      Inr [(''gpt_summary'', PStr (collapse_newlines (py_strip (double_newlines S)))),
           (''tags'', PList [PStr a, PStr b])]"
    using assms(1) by (simp add: parse_gpt_output_def)
  have "collapse_newlines (py_strip (double_newlines S)) = S"
    if "CHR 0x0A \<notin> set S" and "py_strip S = S"
    using that by (simp add: double_newlines_none collapse_newlines_none)
  with main show ?thesis
    by simp
qed

theorem normalizer_embedded_body_witness:
  \<open>parse_gpt_output unescape_demo loads_demo
       (''Here it is: '' @ ''{"tags": ["a", "b"], "summary": "S"}'' @ '' Done.'') =
     Inr [(''gpt_summary'', PStr ''S''), (''tags'', PList [PStr ''a'', PStr ''b''])]\<close>
proof -
  let ?body = \<open>''{"tags": ["a", "b"], "summary": "S"}''\<close>
  have h1: "unquote unescape_demo (''Here it is: '' @ ?body @ '' Done.'') =
      Inr (''Here it is: '' @ ?body @ '' Done.'')"
    by (simp add: unquote_def startswith_def)
  have h2: "CHR ''{'' \<notin> set ''Here it is: ''"
    by simp
  have h3: "CHR ''}'' \<notin> set '' Done.''"
    by simp
  have h4: "startswith ?body ''{''"
    by (simp add: startswith_def)
  have h5: "endswith ?body ''}''"
    by (simp add: endswith_def)
  have h6: "loads_demo ?body =
      Inr (PDict [(''tags'', PList [PStr ''a'', PStr ''b'']), (''summary'', PStr ''S'')])"
    by (simp add: loads_demo_def demo_documents_def demo_body_def)
  have h7: "CHR 0x0A \<notin> set ''S''" "py_strip ''S'' = ''S''"
    by (simp_all add: py_strip_def whitespace_def)
  from normalizer_embedded_body
      [where unescape = unescape_demo and loads = loads_demo
         and blob = "''Here it is: '' @ ?body @ '' Done.''"
         and pre = "''Here it is: ''" and body = ?body and post = "'' Done.''",
       OF h1 h2 h3 h4 h5 h6] h7
  show ?thesis
    by blast
qed

text \<open>
  The claim as stated fails in two ways. With a brace before the body, here in the blob
  \<open>see {fig} {"tags": ["a", "b"], "summary": "S"}\<close>, the text from the first opening brace
  is not an object, and the result is the whole blob as the summary with no tags. With
  white space at the ends of the summary, here \<open>" S "\<close>, the summary returned is \<open>S\<close>.
\<close>

theorem normalizer_embedded_body_counterexample:
  \<open>parse_gpt_output unescape_demo loads_demo
       (''see {fig} '' @ ''{"tags": ["a", "b"], "summary": "S"}'') =
     Inr [(''gpt_summary'', PStr ''see {fig} {"tags": ["a", "b"], "summary": "S"}''),
          (''tags'', PList [])] \<and>
   loads_demo ''{"tags": ["a", "b"], "summary": " S "}'' =
     Inr (PDict [(''tags'', PList [PStr ''a'', PStr ''b'']), (''summary'', PStr '' S '')]) \<and>
   parse_gpt_output unescape_demo loads_demo ''{"tags": ["a", "b"], "summary": " S "}'' =
     Inr [(''gpt_summary'', PStr ''S''), (''tags'', PList [PStr ''a'', PStr ''b''])]\<close>
  by (simp add: normalizer_eval)

end
